theory Spec2Isabelle
  imports Main
begin

section \<open>Podcast generator: credential pool, script parser, clip fitting, timeline\<close>

text \<open>
  A shallow embedding of \<^verbatim>\<open>podcast_generator_v2.py\<close> (and, for clip fitting, of
  \<^verbatim>\<open>podcast_generator.py\<close>). Python integers are \<open>int\<close>, lengths are \<open>nat\<close>,
  dictionaries are maps, exceptions are values. The provider, the audio library, the
  clock and the export are parameters. Writing the credits log and reading the
  configuration are taken to succeed.
\<close>

subsection \<open>ApiKeyManager: the state\<close>

text \<open>One entry of the \<^verbatim>\<open>"calls"\<close> list of the credits log.\<close>

record call =
  timestamp :: string
  operation_type :: string
  character_count :: int
  credits_used :: int

text \<open>The value stored under one key id: \<^verbatim>\<open>{"total_credits_used": .., "calls": [..]}\<close>.\<close>

record entry =
  total_credits_used :: int
  calls :: "call list"

type_synonym ledger = "string \<rightharpoonup> entry"

text \<open>
  The fields of \<^verbatim>\<open>ApiKeyManager\<close> that the operations below read or write.
  \<open>credits_log_file\<close> is the content of the JSON file on disk (\<open>None\<close>: not written yet);
  \<open>sent\<close> records, oldest first, the key carried by every outbound request issued so far.
\<close>

record manager =
  api_keys :: "string list"
  current_index :: nat
  credits_log :: ledger
  credits_log_file :: "ledger option"
  sent :: "string list"

subsection \<open>get\_next\_api\_key\<close>

text \<open>
  \<^verbatim>\<open>api_key = self.api_keys[self.current_index]\<close>, then the index moves on modulo the
  number of keys. \<open>None\<close> is the \<^verbatim>\<open>IndexError\<close> of the list access.
\<close>

definition get_next_api_key :: "manager \<Rightarrow> (string \<times> manager) option" where
  "get_next_api_key m =
     (if current_index m < length (api_keys m)
      then Some (api_keys m ! current_index m,
                 m\<lparr>current_index := (current_index m + 1) mod length (api_keys m)\<rparr>)
      else None)"

text \<open>Calling \<open>get_next_api_key\<close> \<open>k\<close> times in a row, collecting the keys handed out.\<close>

fun issue :: "nat \<Rightarrow> manager \<Rightarrow> (string list \<times> manager) option" where
  "issue 0 m = Some ([], m)"
| "issue (Suc k) m =
     (case get_next_api_key m of
        None \<Rightarrow> None
      | Some (key, m') \<Rightarrow>
          (case issue k m' of
             None \<Rightarrow> None
           | Some (keys, m'') \<Rightarrow> Some (key # keys, m'')))"

subsection \<open>log\_credit\_usage\<close>

text \<open>\<^verbatim>\<open>api_key[:8] + '...'\<close>\<close>

definition key_id :: "string \<Rightarrow> string" where
  "key_id api_key = take 8 api_key @ ''...''"

text \<open>\<^verbatim>\<open>_save_credits_log\<close>: the whole log is written to the file.\<close>

definition save_credits_log :: "manager \<Rightarrow> manager" where
  "save_credits_log m = m\<lparr>credits_log_file := Some (credits_log m)\<rparr>"

text \<open>
  \<open>now\<close> is \<^verbatim>\<open>datetime.now().isoformat()\<close>. A missing key id gets a fresh entry first;
  then the total is increased, the call appended and the log saved.
\<close>

definition log_credit_usage ::
  "string \<Rightarrow> string \<Rightarrow> int \<Rightarrow> int \<Rightarrow> string \<Rightarrow> manager \<Rightarrow> manager" where
  "log_credit_usage now api_key char_count credits operation m =
     (let kid = key_id api_key;
          log1 = (if kid \<in> dom (credits_log m) then credits_log m
                  else (credits_log m)(kid \<mapsto> \<lparr>total_credits_used = 0, calls = []\<rparr>));
          e = the (log1 kid);
          e1 = e\<lparr>total_credits_used := total_credits_used e + credits\<rparr>;
          e2 = e1\<lparr>calls := calls e1 @
                 [\<lparr>timestamp = now, operation_type = operation,
                   character_count = char_count, credits_used = credits\<rparr>]\<rparr>
      in save_credits_log (m\<lparr>credits_log := log1(kid \<mapsto> e2)\<rparr>))"

text \<open>The ledger invariant: every running total is the sum over the recorded calls.\<close>

definition ledger_ok :: "ledger \<Rightarrow> bool" where
  "ledger_ok log \<longleftrightarrow>
     (\<forall>kid e. log kid = Some e \<longrightarrow> total_credits_used e = sum_list (map credits_used (calls e)))"

text \<open>
  How often position \<open>j\<close> of the pool is handed out by \<open>k\<close> consecutive calls that start
  with the cursor at \<open>c\<close>, in a pool of \<open>n\<close> keys.
\<close>

definition times_issued :: "nat \<Rightarrow> nat \<Rightarrow> nat \<Rightarrow> nat \<Rightarrow> nat" where
  "times_issued n c k j = length (filter (\<lambda>i. (c + i) mod n = j) [0..<k])"

subsection \<open>make\_api\_call\<close>

text \<open>
  What one outbound request does: it comes back with a status code and a body, or
  \<^verbatim>\<open>requests.get\<close>/\<^verbatim>\<open>requests.post\<close> raises. The provider is a function of the number
  of requests issued before this one and of the key the request carries.
\<close>

datatype outcome = Status int string | RequestRaised

type_synonym provider = "nat \<Rightarrow> string \<Rightarrow> outcome"

text \<open>The \<^verbatim>\<open>APIRotation\<close> settings read by the constructor.\<close>

record policy =
  max_retries :: int
  retry_delay :: int
  retry_failed_calls :: bool

text \<open>
  \<open>Returned response key\<close> is \<^verbatim>\<open>return response, key\<close>: the response is the body of a 200
  answer or \<^verbatim>\<open>None\<close>, the key is \<^verbatim>\<open>headers.get("xi-api-key")\<close>.
  \<open>Raised\<close> is an exception that leaves \<open>make_api_call\<close>.
\<close>

datatype call_result = Returned "string option" "string option" | Raised

text \<open>
  One pass through the loop body either leaves the loop or goes round again with a new
  \<^verbatim>\<open>current_attempt\<close>, a new \<^verbatim>\<open>headers["xi-api-key"]\<close> and a new manager state.
\<close>

datatype step = Done call_result manager | Again int "string option" manager

text \<open>
  The \<^verbatim>\<open>except Exception\<close> clause. \<^verbatim>\<open>time.sleep\<close> raises \<^verbatim>\<open>ValueError\<close> on a negative
  delay; raised inside the handler, it leaves the function.
\<close>

definition handle_exception :: "policy \<Rightarrow> int \<Rightarrow> string option \<Rightarrow> manager \<Rightarrow> step" where
  "handle_exception p current_attempt hkey m =
     (if \<not> retry_failed_calls p then Done (Returned None hkey) m
      else if retry_delay p < 0 then Done Raised m
      else Again (current_attempt + 1) hkey m)"

text \<open>
  The \<^verbatim>\<open>try\<close> block. \<open>hkey\<close> is the key in \<^verbatim>\<open>headers\<close>, if any. The request is appended to
  \<open>sent\<close> whether it comes back or raises. A \<^verbatim>\<open>time.sleep\<close> that raises inside the block
  (after \<^verbatim>\<open>current_attempt += 1\<close>) is caught by the handler like any other exception.
\<close>

definition attempt_once ::
  "policy \<Rightarrow> provider \<Rightarrow> int \<Rightarrow> string option \<Rightarrow> manager \<Rightarrow> step" where
  "attempt_once p net current_attempt hkey m =
     (case (case hkey of None \<Rightarrow> get_next_api_key m | Some k \<Rightarrow> Some (k, m)) of
        None \<Rightarrow> handle_exception p current_attempt hkey m
      | Some (k, m1) \<Rightarrow>
          (let m2 = m1\<lparr>sent := sent m1 @ [k]\<rparr> in
           case net (length (sent m1)) k of
             RequestRaised \<Rightarrow> handle_exception p current_attempt (Some k) m2
           | Status status_code content \<Rightarrow>
               if status_code = 200 then Done (Returned (Some content) (Some k)) m2
               else if status_code = 429 \<or> status_code = 401 then
                 (case get_next_api_key m2 of
                    None \<Rightarrow> handle_exception p current_attempt (Some k) m2
                  | Some (k', m3) \<Rightarrow>
                      if retry_delay p < 0
                      then handle_exception p (current_attempt + 1) (Some k') m3
                      else Again (current_attempt + 1) (Some k') m3)
               else if \<not> retry_failed_calls p then Done (Returned None (Some k)) m2
               else if retry_delay p < 0
                    then handle_exception p (current_attempt + 1) (Some k) m2
                    else Again (current_attempt + 1) (Some k) m2))"

text \<open>\<^verbatim>\<open>while current_attempt < self.max_retries\<close>, and the return after the loop.\<close>

function make_api_call_loop ::
  "policy \<Rightarrow> provider \<Rightarrow> int \<Rightarrow> string option \<Rightarrow> manager \<Rightarrow> call_result \<times> manager" where
  "make_api_call_loop p net current_attempt hkey m =
     (if current_attempt < max_retries p then
        (case attempt_once p net current_attempt hkey m of
           Done r m' \<Rightarrow> (r, m')
         | Again current_attempt' hkey' m' \<Rightarrow> make_api_call_loop p net current_attempt' hkey' m')
      else (Returned None hkey, m))"
  by pat_completeness auto
termination
  by (relation "measure (\<lambda>(p, net, a, hkey, m). nat (max_retries p - a))")
     (auto simp: attempt_once_def handle_exception_def Let_def
           split: option.splits outcome.splits if_splits prod.splits)

definition make_api_call ::
  "policy \<Rightarrow> provider \<Rightarrow> string option \<Rightarrow> manager \<Rightarrow> call_result \<times> manager" where
  "make_api_call p net hkey m = make_api_call_loop p net 0 hkey m"

text \<open>A provider outcome that is not the 200 answer.\<close>

definition failing :: "outcome \<Rightarrow> bool" where
  "failing out = (case out of Status status_code content \<Rightarrow> status_code \<noteq> 200 | RequestRaised \<Rightarrow> True)"

subsection \<open>ScriptParser.parse\<close>

text \<open>
  A character stands for one code point below 256. \<open>is_space\<close> is \<^verbatim>\<open>str.isspace\<close> on
  these, which is also what \<^verbatim>\<open>\s\<close> matches in a \<^verbatim>\<open>str\<close> pattern.
\<close>

definition LF :: char where "LF = CHR 0x0A"

definition CR :: char where "CR = CHR 0x0D"

definition is_space :: "char \<Rightarrow> bool" where
  "is_space c \<longleftrightarrow>
     c \<in> set [CHR 0x09, CHR 0x0A, CHR 0x0B, CHR 0x0C, CHR 0x0D, CHR 0x1C, CHR 0x1D, CHR 0x1E,
              CHR 0x1F, CHR 0x20, CHR 0x85, CHR 0xA0]"

text \<open>\<^verbatim>\<open>str.strip()\<close>\<close>

definition strip :: "string \<Rightarrow> string" where
  "strip s = rev (dropWhile is_space (rev (dropWhile is_space s)))"

text \<open>
  The file is opened in text mode: \<^verbatim>\<open>\r\n\<close> and a lone \<^verbatim>\<open>\r\<close> are read as \<^verbatim>\<open>\n\<close>.
\<close>

fun universal_newlines :: "string \<Rightarrow> string" where
  "universal_newlines [] = []"
| "universal_newlines [c] = [if c = CR then LF else c]"
| "universal_newlines (c # d # cs) =
     (if c = CR \<and> d = LF then LF # universal_newlines cs
      else if c = CR then LF # universal_newlines (d # cs)
      else c # universal_newlines (d # cs))"

text \<open>
  \<^verbatim>\<open>f.readlines()\<close>: every line keeps its terminator; text after the last terminator is a
  line of its own. \<open>cur\<close> is the line being read.
\<close>

fun readlines :: "string \<Rightarrow> string \<Rightarrow> string list" where
  "readlines cur [] = (if cur = [] then [] else [cur])"
| "readlines cur (c # cs) =
     (if c = LF then (cur @ [c]) # readlines [] cs else readlines (cur @ [c]) cs)"

text \<open>
  \<^verbatim>\<open>re.match(r'\[TAG:\s*([^\]]+)\]', line)\<close>, with \<open>tag\<close> the literal \<^verbatim>\<open>[TAG:\<close>, returning
  group 1. The match is anchored at the start of the line only. After the literal, the
  characters up to the first \<^verbatim>\<open>]\<close> are shared between \<^verbatim>\<open>\s*\<close> and the group: \<^verbatim>\<open>\s*\<close> takes
  the leading white space, unless that is all there is, in which case it gives the last
  character back to the group, which must not be empty.
\<close>

definition match_tag :: "string \<Rightarrow> string \<Rightarrow> string option" where
  "match_tag tag line =
     (if take (length tag) line = tag then
        (let rest = drop (length tag) line;
             run = takeWhile (\<lambda>c. c \<noteq> CHR '']'') rest;
             after = dropWhile (\<lambda>c. c \<noteq> CHR '']'') rest
         in if run \<noteq> [] \<and> after \<noteq> []
            then Some (if dropWhile is_space run \<noteq> [] then dropWhile is_space run
                       else [last run])
            else None)
      else None)"

text \<open>
  The chunk dictionaries: \<open>Dialogue speaker text\<close> has \<^verbatim>\<open>"type": "dialogue"\<close>,
  \<open>Sfx effect\<close> has \<^verbatim>\<open>"type": "sfx"\<close>.
\<close>

datatype chunk = Dialogue string string | Sfx string

text \<open>\<^verbatim>\<open>" ".join(buffer)\<close>\<close>

fun join_space :: "string list \<Rightarrow> string" where
  "join_space [] = []"
| "join_space [x] = x"
| "join_space (x # y # ys) = x @ '' '' @ join_space (y # ys)"

text \<open>The text in the buffer, if any, becomes a dialogue chunk of the current speaker.\<close>

definition flush :: "chunk list \<Rightarrow> string \<Rightarrow> string list \<Rightarrow> chunk list" where
  "flush chunks current_speaker buffer =
     (if buffer \<noteq> [] then chunks @ [Dialogue current_speaker (join_space buffer)] else chunks)"

text \<open>The loop over the lines, and the flush after it.\<close>

fun parse_lines :: "string list \<Rightarrow> chunk list \<Rightarrow> string \<Rightarrow> string list \<Rightarrow> chunk list" where
  "parse_lines [] chunks current_speaker buffer = flush chunks current_speaker buffer"
| "parse_lines (raw # lines) chunks current_speaker buffer =
     (let line = strip raw in
      if line = [] then parse_lines lines chunks current_speaker buffer
      else
        (case match_tag ''[SPEAKER:'' line of
           Some name \<Rightarrow> parse_lines lines (flush chunks current_speaker buffer) (strip name) []
         | None \<Rightarrow>
             (case match_tag ''[SFX:'' line of
                Some name \<Rightarrow>
                  parse_lines lines (flush chunks current_speaker buffer @ [Sfx (strip name)])
                    current_speaker []
              | None \<Rightarrow> parse_lines lines chunks current_speaker (buffer @ [line]))))"

text \<open>\<open>parse\<close> on the content of a script file that could be read.\<close>

definition parse :: "string \<Rightarrow> chunk list" where
  "parse script = parse_lines (readlines [] (universal_newlines script)) [] ''Default'' []"

subsection \<open>Collaborators\<close>

text \<open>
  What lies outside the program is a parameter: the provider, the clock, the export and
  the audio library. \<open>'a\<close> is the library's \<^verbatim>\<open>AudioSegment\<close>; nothing is assumed about it.
  Each library field is the operation under the name the program calls it by:
  \<^item> \<open>decode body\<close> is writing the response body to a temporary file and reading it back
    with \<^verbatim>\<open>AudioSegment.from_mp3\<close> (\<open>None\<close>: an exception);
  \<^item> \<open>silent d\<close> is \<^verbatim>\<open>AudioSegment.silent(duration=d)\<close>;
  \<^item> \<open>seg_plus a b\<close> is \<^verbatim>\<open>a + b\<close>, \<open>seg_times a n\<close> is \<^verbatim>\<open>a * n\<close>;
  \<^item> \<open>len a\<close> is \<^verbatim>\<open>len(a)\<close>, the library's length in milliseconds;
  \<^item> \<open>slice_to a t\<close> is \<^verbatim>\<open>a[:t]\<close>, \<open>slice_from a t\<close> is \<^verbatim>\<open>a[t:]\<close>;
  \<^item> \<open>overlay a b\<close> is \<^verbatim>\<open>a.overlay(b)\<close>;
  \<^item> \<open>apply_gain g a\<close> is \<^verbatim>\<open>a.apply_gain(g)\<close>, which is what \<^verbatim>\<open>a - dB\<close> calls with \<open>g = - dB\<close>;
  \<^item> \<open>normalize_seg a\<close> is \<^verbatim>\<open>pydub.effects.normalize(a)\<close>.
  The library operations are taken to return. \<open>export_ok\<close> says whether
  \<^verbatim>\<open>podcast.export\<close> succeeds; \<open>clock\<close> gives the time stamp as a function of the number of
  requests issued so far.
\<close>

record 'a world =
  service :: provider
  clock :: "nat \<Rightarrow> string"
  export_ok :: bool
  decode :: "string \<Rightarrow> 'a option"
  silent :: "int \<Rightarrow> 'a"
  seg_plus :: "'a \<Rightarrow> 'a \<Rightarrow> 'a"
  seg_times :: "'a \<Rightarrow> int \<Rightarrow> 'a"
  len :: "'a \<Rightarrow> nat"
  slice_to :: "'a \<Rightarrow> int \<Rightarrow> 'a"
  slice_from :: "'a \<Rightarrow> int \<Rightarrow> 'a"
  overlay :: "'a \<Rightarrow> 'a \<Rightarrow> 'a"
  apply_gain :: "int \<Rightarrow> 'a \<Rightarrow> 'a"
  normalize_seg :: "'a \<Rightarrow> 'a"

subsection \<open>Fitting a clip to a duration\<close>

datatype py_error = ZeroDivisionError

text \<open>
  \<open>generate_sfx\<close>, "Adjust duration if needed" (version 2). The number of repetitions is
  computed from \<^verbatim>\<open>len(sfx)\<close>; \<^verbatim>\<open>//\<close> by a length of 0 raises.
\<close>

definition fit_duration :: "'a world \<Rightarrow> 'a \<Rightarrow> int \<Rightarrow> py_error + 'a" where
  "fit_duration w sfx duration_ms =
     (if int (len w sfx) > duration_ms then Inr (slice_to w sfx duration_ms)
      else if int (len w sfx) < duration_ms then
        (if len w sfx = 0 then Inl ZeroDivisionError
         else (let repetitions = duration_ms div int (len w sfx) + 1
               in Inr (slice_to w (seg_times w sfx repetitions) duration_ms)))
      else Inr sfx)"

text \<open>
  \<open>get_sfx_clip\<close>, the two \<^verbatim>\<open>if duration_ms and ...\<close> statements (version 1). The first
  trims the clip; the second looks at the clip as the first left it.
\<close>

definition trim_v1 :: "'a world \<Rightarrow> 'a \<Rightarrow> int \<Rightarrow> 'a" where
  "trim_v1 w clip duration_ms =
     (if duration_ms \<noteq> 0 \<and> int (len w clip) > duration_ms
      then slice_to w clip duration_ms else clip)"

definition fit_duration_v1 :: "'a world \<Rightarrow> 'a \<Rightarrow> int \<Rightarrow> py_error + 'a" where
  "fit_duration_v1 w clip duration_ms =
     (let clip1 = trim_v1 w clip duration_ms
      in if duration_ms \<noteq> 0 \<and> int (len w clip1) < duration_ms then
           (if len w clip1 = 0 then Inl ZeroDivisionError
            else (let repetitions = duration_ms div int (len w clip1) + 1
                  in Inr (slice_to w (seg_times w clip1 repetitions) duration_ms)))
         else Inr clip1)"

subsection \<open>Settings and state\<close>

text \<open>
  The configuration values read by the synthesizers and by \<open>generate\<close>. \<open>rotation\<close> is
  the \<^verbatim>\<open>APIRotation\<close> section, \<open>sfx_prompts\<close> the \<^verbatim>\<open>SoundEffectsPrompts\<close> section.
\<close>

record settings =
  rotation :: policy
  default_duration :: int
  volume_reduction :: int
  sfx_overlap :: bool
  sfx_prompts :: "string \<rightharpoonup> string"
  silence_between_chunks :: int
  intro_silence :: int
  normalize_audio :: bool

text \<open>
  The state of a \<^verbatim>\<open>PodcastGenerator\<close>: the key manager, the cache of the effects generator
  (the key \<^verbatim>\<open>f"{effect_name}_{duration_ms}"\<close> is kept as the pair it is built from) and
  the audio written to the output file, if any.
\<close>

record 'a studio =
  api_key_manager :: manager
  sfx_cache :: "(string \<times> int) \<rightharpoonup> 'a"
  exported :: "'a option"

text \<open>\<^verbatim>\<open>str.lower()\<close> on code points below 256.\<close>

definition lower_char :: "char \<Rightarrow> char" where
  "lower_char c =
     (let n = (of_char c :: nat)
      in if (65 \<le> n \<and> n \<le> 90) \<or> (192 \<le> n \<and> n \<le> 222 \<and> n \<noteq> 215)
         then char_of (n + 32) else c)"

definition lower :: "string \<Rightarrow> string" where
  "lower s = map lower_char s"

subsection \<open>SpeechSynthesizer.synthesize\<close>

text \<open>
  Empty or white-space text returns \<^verbatim>\<open>None\<close> before anything else. The request is made
  with \<^verbatim>\<open>headers\<close> that carry no key. Everything from the request on is inside
  \<^verbatim>\<open>try ... except Exception: return None\<close>, so an exception that leaves
  \<open>make_api_call\<close>, a key of \<^verbatim>\<open>None\<close> in \<open>log_credit_usage\<close> and a failing decode all
  give \<^verbatim>\<open>None\<close>. A response is true when its status is 200.
\<close>

definition synthesize ::
  "settings \<Rightarrow> 'a world \<Rightarrow> string \<Rightarrow> string \<Rightarrow> manager \<Rightarrow> 'a option \<times> manager" where
  "synthesize cfg w utterance speaker m =
     (if strip utterance = [] then (None, m)
      else
        (case make_api_call (rotation cfg) (service w) None m of
           (Raised, m1) \<Rightarrow> (None, m1)
         | (Returned response api_key, m1) \<Rightarrow>
             (case response of
                None \<Rightarrow> (None, m1)
              | Some content \<Rightarrow>
                  (case api_key of
                     None \<Rightarrow> (None, m1)
                   | Some k \<Rightarrow>
                       (let char_count = int (length utterance);
                            credits = char_count;
                            m2 = log_credit_usage (clock w (length (sent m1))) k char_count
                                   credits ''speech_synthesis'' m1
                        in (decode w content, m2))))))"

subsection \<open>SoundEffectsGenerator.generate\_sfx\<close>

text \<open>
  A cached clip is returned as it is. An effect without a prompt returns \<^verbatim>\<open>None\<close>.
  Otherwise the request is made as in \<open>synthesize\<close>; the decoded clip is lowered by
  \<open>volume_reduction\<close>, fitted to the duration and cached. The fitting is inside the
  \<^verbatim>\<open>try\<close> block, so its \<^verbatim>\<open>ZeroDivisionError\<close> gives \<^verbatim>\<open>None\<close> too.
\<close>

definition generate_sfx ::
  "settings \<Rightarrow> 'a world \<Rightarrow> string \<Rightarrow> int option \<Rightarrow> 'a studio \<Rightarrow> 'a option \<times> 'a studio" where
  "generate_sfx cfg w effect_name duration st =
     (let duration_ms = (case duration of None \<Rightarrow> default_duration cfg | Some d \<Rightarrow> d);
          cache_key = (effect_name, duration_ms)
      in case sfx_cache st cache_key of
           Some cached \<Rightarrow> (Some cached, st)
         | None \<Rightarrow>
             (case sfx_prompts cfg (lower effect_name) of
                None \<Rightarrow> (None, st)
              | Some prompt \<Rightarrow>
                  (let enhanced_prompt = ''[SOUND EFFECT ONLY, NO SPEECH]: '' @ prompt
                   in case make_api_call (rotation cfg) (service w) None (api_key_manager st) of
                        (Raised, m1) \<Rightarrow> (None, st\<lparr>api_key_manager := m1\<rparr>)
                      | (Returned response api_key, m1) \<Rightarrow>
                          (case response of
                             None \<Rightarrow> (None, st\<lparr>api_key_manager := m1\<rparr>)
                           | Some content \<Rightarrow>
                               (case api_key of
                                  None \<Rightarrow> (None, st\<lparr>api_key_manager := m1\<rparr>)
                                | Some k \<Rightarrow>
                                    (let char_count = int (length enhanced_prompt);
                                         credits = char_count;
                                         m2 = log_credit_usage (clock w (length (sent m1))) k
                                                char_count credits ''sfx_generation'' m1
                                     in case decode w content of
                                          None \<Rightarrow> (None, st\<lparr>api_key_manager := m2\<rparr>)
                                        | Some sfx0 \<Rightarrow>
                                            (case fit_duration w
                                                    (apply_gain w (- volume_reduction cfg) sfx0)
                                                    duration_ms of
                                               Inl err \<Rightarrow> (None, st\<lparr>api_key_manager := m2\<rparr>)
                                             | Inr sfx \<Rightarrow>
                                                 (Some sfx,
                                                  st\<lparr>api_key_manager := m2,
                                                     sfx_cache := (sfx_cache st)(cache_key \<mapsto> sfx)\<rparr>))))))))"

subsection \<open>PodcastGenerator.generate\<close>

text \<open>
  \<^verbatim>\<open>if audio:\<close> is false for \<^verbatim>\<open>None\<close> and for a segment whose \<^verbatim>\<open>len\<close> is 0 (the class
  defines \<^verbatim>\<open>__len__\<close> and no \<^verbatim>\<open>__bool__\<close>).
\<close>

definition truthy :: "'a world \<Rightarrow> 'a option \<Rightarrow> bool" where
  "truthy w a = (case a of None \<Rightarrow> False | Some seg \<Rightarrow> len w seg \<noteq> 0)"

text \<open>The first part of the loop body: the audio for one chunk.\<close>

definition chunk_audio ::
  "settings \<Rightarrow> 'a world \<Rightarrow> chunk \<Rightarrow> 'a studio \<Rightarrow> 'a option \<times> 'a studio" where
  "chunk_audio cfg w chunk st =
     (case chunk of
        Dialogue speaker utterance \<Rightarrow>
          (case synthesize cfg w utterance speaker (api_key_manager st) of
             (audio, m) \<Rightarrow> (audio, st\<lparr>api_key_manager := m\<rparr>))
      | Sfx effect \<Rightarrow> generate_sfx cfg w effect None st)"

text \<open>
  The second part, the \<^verbatim>\<open>if audio:\<close> and \<^verbatim>\<open>if sfx_clip:\<close> blocks: how the audio obtained for
  the chunk goes into \<open>podcast\<close>. Speech follows 300 ms of silence. An effect is mixed
  onto the last 2000 ms when \<open>sfx_overlap\<close> is set and the podcast is longer than that,
  and appended otherwise.
\<close>

definition place_audio :: "settings \<Rightarrow> 'a world \<Rightarrow> chunk \<Rightarrow> 'a \<Rightarrow> 'a option \<Rightarrow> 'a" where
  "place_audio cfg w chunk podcast produced =
     (case chunk of
        Dialogue speaker utterance \<Rightarrow>
          (case produced of
             None \<Rightarrow> podcast
           | Some audio \<Rightarrow>
               if len w audio \<noteq> 0 then seg_plus w (seg_plus w podcast (silent w 300)) audio
               else podcast)
      | Sfx effect \<Rightarrow>
          (case produced of
             None \<Rightarrow> podcast
           | Some sfx_clip \<Rightarrow>
               if len w sfx_clip \<noteq> 0 then
                 (if sfx_overlap cfg \<and> len w podcast > 2000 then
                    (let overlap_point = int (len w podcast) - 2000;
                         new_segment = slice_to w podcast overlap_point;
                         overlap_segment = slice_from w podcast overlap_point;
                         sfx_clip1 = (if len w sfx_clip > len w overlap_segment
                                      then slice_to w sfx_clip (int (len w overlap_segment))
                                      else sfx_clip);
                         overlapped = overlay w overlap_segment sfx_clip1
                     in seg_plus w new_segment overlapped)
                  else seg_plus w podcast sfx_clip)
               else podcast))"

text \<open>
  The whole loop body once the audio is there: the audio is placed, then the silence
  between chunks is added (the last statement of the body, outside both blocks).
\<close>

definition mix_chunk :: "settings \<Rightarrow> 'a world \<Rightarrow> chunk \<Rightarrow> 'a \<Rightarrow> 'a option \<Rightarrow> 'a" where
  "mix_chunk cfg w chunk podcast produced =
     seg_plus w (place_audio cfg w chunk podcast produced)
       (silent w (silence_between_chunks cfg))"

text \<open>The loop over the chunks.\<close>

fun run_chunks ::
  "settings \<Rightarrow> 'a world \<Rightarrow> chunk list \<Rightarrow> 'a \<Rightarrow> 'a studio \<Rightarrow> 'a \<times> 'a studio" where
  "run_chunks cfg w [] podcast st = (podcast, st)"
| "run_chunks cfg w (chunk # chunks) podcast st =
     (case chunk_audio cfg w chunk st of
        (produced, st1) \<Rightarrow> run_chunks cfg w chunks (mix_chunk cfg w chunk podcast produced) st1)"

text \<open>The audio obtained for each chunk in the course of the loop, in order.\<close>

fun produced_audio ::
  "settings \<Rightarrow> 'a world \<Rightarrow> chunk list \<Rightarrow> 'a studio \<Rightarrow> 'a option list" where
  "produced_audio cfg w [] st = []"
| "produced_audio cfg w (chunk # chunks) st =
     (case chunk_audio cfg w chunk st of
        (produced, st1) \<Rightarrow> produced # produced_audio cfg w chunks st1)"

text \<open>
  \<open>Finished b\<close> is \<^verbatim>\<open>return b\<close>; \<open>Crashed\<close> is an exception that leaves \<open>generate\<close>.
\<close>

datatype gen_result = Finished bool | Crashed

text \<open>
  \<open>script\<close> is the content of the script file, \<open>None\<close> when it cannot be read: \<open>parse\<close>
  re-raises and \<open>generate\<close> does not catch. An empty chunk list returns \<^verbatim>\<open>False\<close> at
  once. Otherwise the podcast starts as the intro silence, the chunks are processed, the
  result is normalized if configured, and exported.
\<close>

definition generate ::
  "settings \<Rightarrow> 'a world \<Rightarrow> string option \<Rightarrow> 'a studio \<Rightarrow> gen_result \<times> 'a studio" where
  "generate cfg w script st =
     (case script of
        None \<Rightarrow> (Crashed, st)
      | Some content \<Rightarrow>
          (let chunks = parse content
           in if chunks = [] then (Finished False, st)
              else
                (case run_chunks cfg w chunks (silent w (intro_silence cfg)) st of
                   (podcast, st1) \<Rightarrow>
                     (let final = (if normalize_audio cfg then normalize_seg w podcast
                                   else podcast)
                      in if export_ok w then (Finished True, st1\<lparr>exported := Some final\<rparr>)
                         else (Finished False, st1)))))"

text \<open>The podcast buffer when the loop of \<open>generate\<close> ends, for a script with chunks.\<close>

definition timeline :: "settings \<Rightarrow> 'a world \<Rightarrow> string \<Rightarrow> 'a studio \<Rightarrow> 'a" where
  "timeline cfg w content st =
     fst (run_chunks cfg w (parse content) (silent w (intro_silence cfg)) st)"

subsection \<open>Defaults and construction\<close>

text \<open>The values of \<^verbatim>\<open>DEFAULT_CONFIG\<close> that \<open>settings\<close> holds.\<close>

definition DEFAULT_CONFIG :: settings where
  "DEFAULT_CONFIG =
     \<lparr>rotation = \<lparr>max_retries = 3, retry_delay = 2, retry_failed_calls = True\<rparr>,
      default_duration = 3000,
      volume_reduction = 10,
      sfx_overlap = True,
      sfx_prompts =
        [''thunder'' \<mapsto> ''Loud rumbling thunder during a storm'',
         ''heartbeat'' \<mapsto> ''Deep rhythmic heartbeat sounds'',
         ''ghat'' \<mapsto> ''Ambient sounds from the Ganges river bank with distant temple bells'',
         ''water'' \<mapsto> ''Flowing water sound with gentle splashes'',
         ''temple_bells'' \<mapsto> ''Sacred Indian temple bells ringing'',
         ''whispers'' \<mapsto> ''Ghostly whispers in a dark room'',
         ''footsteps'' \<mapsto> ''Heavy footsteps on wooden floor'',
         ''wind'' \<mapsto> ''Howling wind through narrow streets'',
         ''crowd'' \<mapsto> ''Busy Indian market crowd noises'',
         ''door'' \<mapsto> ''Old wooden door creaking open''],
      silence_between_chunks = 200,
      intro_silence = 500,
      normalize_audio = True\<rparr>"

text \<open>
  \<^verbatim>\<open>ApiKeyManager.__init__\<close> on a list of keys when there is no credits log file: the
  cursor is 0 and every key id has an empty entry. No keys is a \<^verbatim>\<open>ValueError\<close> (\<open>None\<close>).
\<close>

definition new_manager :: "string list \<Rightarrow> manager option" where
  "new_manager keys =
     (if keys = [] then None
      else Some \<lparr>api_keys = keys, current_index = 0,
                 credits_log = map_of (map (\<lambda>key. (key_id key,
                                  \<lparr>total_credits_used = 0, calls = []\<rparr>)) keys),
                 credits_log_file = None, sent = []\<rparr>)"

text \<open>\<^verbatim>\<open>PodcastGenerator.__init__\<close>: the effects cache starts empty, nothing is exported.\<close>

definition new_studio :: "manager \<Rightarrow> 'a studio" where
  "new_studio m = \<lparr>api_key_manager = m, sfx_cache = Map.empty, exported = None\<rparr>"

section \<open>Properties\<close>

subsection \<open>Round-robin rotation\<close>

lemma shift_mod_inj:
  fixes n c i r :: nat
  assumes "i \<le> r" "r < n" "(c + i) mod n = (c + r) mod n"
  shows "i = r"
proof -
  have le: "c + i \<le> c + r" using assms by simp
  have "n dvd (c + r) - (c + i)"
    by (rule iffD1 [OF mod_eq_dvd_iff_nat [OF le] assms(3) [symmetric]])
  then have "n dvd r - i" by simp
  moreover have "r - i < n" using assms by simp
  ultimately have "r - i = 0" using nat_dvd_not_less by fastforce
  then show ?thesis using assms by simp
qed

lemma shift_mod_hit:
  fixes n c j :: nat
  assumes "j < n"
  shows "(c + (j + (n - c mod n)) mod n) mod n = j"
proof -
  have "c mod n < n" using assms by simp
  then have e: "c mod n + (j + (n - c mod n)) = j + n" by simp
  have "(c + (j + (n - c mod n)) mod n) mod n = (c mod n + (j + (n - c mod n))) mod n"
    by (simp add: mod_add_right_eq mod_add_left_eq)
  also have "\<dots> = j" using e assms by simp
  finally show ?thesis .
qed

lemma one_hit:
  fixes n c j :: nat
  assumes "j < n"
  shows "length (filter (\<lambda>i. (c + i) mod n = j) [0..<n]) = 1"
proof -
  let ?r = "(j + (n - c mod n)) mod n"
  have rn: "?r < n" using assms by simp
  have "{i. (c + i) mod n = j} \<inter> set [0..<n] = {?r}"
  proof (rule set_eqI, rule iffI)
    fix i assume "i \<in> {i. (c + i) mod n = j} \<inter> set [0..<n]"
    then have i: "i < n" "(c + i) mod n = j" by auto
    then have eq: "(c + i) mod n = (c + ?r) mod n" using shift_mod_hit [OF assms, of c] by simp
    have "i = ?r"
    proof (cases "i \<le> ?r")
      case True then show ?thesis using shift_mod_inj [OF True rn eq] by simp
    next
      case False
      then have le: "?r \<le> i" by simp
      show ?thesis using shift_mod_inj [OF le i(1) eq [symmetric]] by simp
    qed
    then show "i \<in> {?r}" by simp
  next
    fix i assume "i \<in> {?r}"
    then show "i \<in> {i. (c + i) mod n = j} \<inter> set [0..<n]"
      using rn shift_mod_hit [OF assms, of c] by simp
  qed
  then show ?thesis by (simp add: distinct_length_filter)
qed

lemma times_issued_period:
  assumes "j < n"
  shows "times_issued n c (n + k) j = Suc (times_issued n c k j)"
proof -
  have "[0..<n + k] = [0..<n] @ [n..<n + k]"
    by (rule upt_add_eq_append) simp
  also have "[n..<n + k] = map (\<lambda>i. i + n) [0..<k]"
    by (simp add: map_add_upt add.commute)
  finally have s: "[0..<n + k] = [0..<n] @ map (\<lambda>i. i + n) [0..<k]" .
  have p: "\<And>i. (c + (i + n)) mod n = (c + i) mod n"
    by (simp add: add.assoc [symmetric])
  show ?thesis
    unfolding times_issued_def s
    using one_hit [OF assms, of c]
    by (simp add: filter_map comp_def p)
qed

lemma times_issued_small:
  assumes "j < n" "k \<le> n"
  shows "times_issued n c k j \<le> 1"
proof -
  have "[0..<n] = [0..<k] @ [k..<n]" using assms(2) upt_add_eq_append [of 0 k "n - k"] by simp
  then have "length (filter (\<lambda>i. (c + i) mod n = j) [0..<n]) =
    times_issued n c k j + length (filter (\<lambda>i. (c + i) mod n = j) [k..<n])"
    by (simp add: times_issued_def)
  then show ?thesis using one_hit [OF assms(1), of c] by simp
qed

lemma times_issued_bounds:
  assumes "j < n"
  shows "k div n \<le> times_issued n c k j \<and> times_issued n c k j \<le> (k + n - 1) div n"
proof (induction k rule: less_induct)
  case (less k)
  show ?case
  proof (cases "k < n")
    case True
    show ?thesis
    proof (cases "k = 0")
      case True then show ?thesis by (simp add: times_issued_def)
    next
      case False
      have "(k + n - 1) div n = 1" using True False by (intro div_nat_eqI) auto
      then show ?thesis using True times_issued_small [OF assms, of k c] by simp
    qed
  next
    case False
    then obtain k' where k: "k = n + k'" using le_Suc_ex by (metis not_less)
    have n0: "0 < n" using assms by simp
    have "k' < k" using k n0 by simp
    then have ih: "k' div n \<le> times_issued n c k' j \<and> times_issued n c k' j \<le> (k' + n - 1) div n"
      using less.IH by blast
    have d1: "(n + k') div n = Suc (k' div n)" using n0 by (simp add: div_add_self1)
    have e: "n + k' + n - 1 = n + (k' + n - 1)" using n0 by simp
    have d2: "(n + k' + n - 1) div n = Suc ((k' + n - 1) div n)"
      unfolding e using n0 div_add_self1 [of n "k' + n - 1"] by simp
    show ?thesis using ih d1 d2 times_issued_period [OF assms, of c k'] k by simp
  qed
qed

lemma issue_run:
  assumes "current_index m < length (api_keys m)"
  shows "issue k m = Some (map (\<lambda>i. api_keys m ! ((current_index m + i) mod length (api_keys m))) [0..<k],
       m\<lparr>current_index := (current_index m + k) mod length (api_keys m)\<rparr>)"
  using assms
proof (induction k arbitrary: m)
  case 0
  then show ?case by simp
next
  case (Suc k)
  let ?n = "length (api_keys m)"
  let ?c = "current_index m"
  let ?m' = "m\<lparr>current_index := (?c + 1) mod ?n\<rparr>"
  have g: "get_next_api_key m = Some (api_keys m ! ?c, ?m')"
    using Suc.prems by (simp add: get_next_api_key_def)
  have n0: "api_keys m \<noteq> []" using Suc.prems by auto
  have a: "((?c + 1) mod ?n + i) mod ?n = (?c + Suc i) mod ?n" for i
    by (simp add: mod_add_left_eq)
  have s1: "api_keys ?m' = api_keys m" by simp
  have s2: "current_index ?m' = (?c + 1) mod ?n" by simp
  have s3: "?m'\<lparr>current_index := x\<rparr> = m\<lparr>current_index := x\<rparr>" for x by simp
  have "current_index ?m' < length (api_keys ?m')" using n0 by simp
  from Suc.IH [OF this]
  have ih: "issue k ?m' = Some (map (\<lambda>i. api_keys m ! ((?c + Suc i) mod ?n)) [0..<k],
       m\<lparr>current_index := (?c + Suc k) mod ?n\<rparr>)"
    unfolding s1 s2 s3 a .
  have u: "map (\<lambda>i. api_keys m ! ((?c + i) mod ?n)) [0..<Suc k]
     = api_keys m ! ?c # map (\<lambda>i. api_keys m ! ((?c + Suc i) mod ?n)) [0..<k]"
  proof -
    have "[0..<Suc k] = 0 # map Suc [0..<k]" by (simp add: map_Suc_upt upt_conv_Cons del: upt_Suc)
    then show ?thesis using Suc.prems by (simp add: comp_def del: upt_Suc)
  qed
  show ?case
    unfolding u using g ih by simp
qed

lemma count_list_map_nth:
  assumes "distinct keys" "j < length keys"
  shows "count_list (map (\<lambda>i. keys ! ((c + i) mod length keys)) [0..<k]) (keys ! j)
         = times_issued (length keys) c k j"
proof -
  have "(keys ! j = keys ! ((c + i) mod length keys)) = ((c + i) mod length keys = j)" for i
  proof -
    have "0 < length keys" using assms(2) by (cases keys) auto
    then have "(c + i) mod length keys < length keys" by (rule mod_less_divisor)
    from nth_eq_iff_index_eq [OF assms(1) assms(2) this] show ?thesis by auto
  qed
  then show ?thesis
    by (simp add: count_list_eq_length_filter filter_map comp_def times_issued_def)
qed

text \<open>
  C2. With a valid cursor, \<open>k\<close> consecutive calls of \<open>get_next_api_key\<close> on a pool of
  \<open>n\<close> keys return the keys in cyclic order starting at the cursor and leave the cursor at
  \<open>(c + k) mod n\<close>; every position of the pool is handed out at least \<open>k div n\<close> and at
  most \<open>(k + n - 1) div n\<close> times (floor and ceiling of \<open>k / n\<close>), and when the keys are
  pairwise distinct that is the number of occurrences of the key in the returned sequence.
  Nothing but the call itself moves the cursor, so the outcome of the surrounding request
  plays no part.
\<close>

theorem get_next_api_key_round_robin:
  assumes "current_index m < length (api_keys m)"
  shows "issue k m =
           Some (map (\<lambda>i. api_keys m ! ((current_index m + i) mod length (api_keys m))) [0..<k],
                 m\<lparr>current_index := (current_index m + k) mod length (api_keys m)\<rparr>)
       \<and> (\<forall>j < length (api_keys m).
             k div length (api_keys m) \<le> times_issued (length (api_keys m)) (current_index m) k j
           \<and> times_issued (length (api_keys m)) (current_index m) k j
                \<le> (k + length (api_keys m) - 1) div length (api_keys m))
       \<and> (distinct (api_keys m) \<longrightarrow>
            (\<forall>j < length (api_keys m).
               count_list (fst (the (issue k m))) (api_keys m ! j)
                 = times_issued (length (api_keys m)) (current_index m) k j))"
proof (intro conjI allI impI)
  show r: "issue k m =
           Some (map (\<lambda>i. api_keys m ! ((current_index m + i) mod length (api_keys m))) [0..<k],
                 m\<lparr>current_index := (current_index m + k) mod length (api_keys m)\<rparr>)"
    by (rule issue_run [OF assms])
  fix j assume j: "j < length (api_keys m)"
  show "k div length (api_keys m) \<le> times_issued (length (api_keys m)) (current_index m) k j"
    using times_issued_bounds [OF j] by blast
  show "times_issued (length (api_keys m)) (current_index m) k j
                \<le> (k + length (api_keys m) - 1) div length (api_keys m)"
    using times_issued_bounds [OF j] by blast
  assume d: "distinct (api_keys m)"
  from count_list_map_nth [OF d j]
  show "count_list (fst (the (issue k m))) (api_keys m ! j)
                 = times_issued (length (api_keys m)) (current_index m) k j"
    unfolding r by simp
qed

theorem get_next_api_key_round_robin_witness:
  "issue 5 \<lparr>api_keys = [''k1'', ''k2'', ''k3''], current_index = 0, credits_log = Map.empty,
              credits_log_file = None, sent = []\<rparr>
     = Some ([''k1'', ''k2'', ''k3'', ''k1'', ''k2''],
             \<lparr>api_keys = [''k1'', ''k2'', ''k3''], current_index = 2, credits_log = Map.empty,
              credits_log_file = None, sent = []\<rparr>)"
  using get_next_api_key_round_robin
    [of "\<lparr>api_keys = [''k1'', ''k2'', ''k3''], current_index = 0, credits_log = Map.empty,
              credits_log_file = None, sent = []\<rparr>" 5]
  by (simp add: upt_conv_Cons)

subsection \<open>The credits ledger\<close>

text \<open>
  C7. \<open>log_credit_usage\<close> preserves the ledger invariant (every running total equals the sum
  of \<open>credits_used\<close> over the recorded calls): the entry of the key id gains exactly one call
  record at its end and its total grows by the credits of that call, every other entry is
  untouched, and the file holds the updated log when the call returns.
\<close>

theorem log_credit_usage_keeps_total:
  assumes "ledger_ok (credits_log m)"
  shows "ledger_ok (credits_log (log_credit_usage now api_key char_count credits operation m))
       \<and> credits_log (log_credit_usage now api_key char_count credits operation m) (key_id api_key)
           = Some \<lparr>total_credits_used =
                     (case credits_log m (key_id api_key) of None \<Rightarrow> 0
                      | Some e \<Rightarrow> total_credits_used e) + credits,
                   calls =
                     (case credits_log m (key_id api_key) of None \<Rightarrow> []
                      | Some e \<Rightarrow> calls e)
                     @ [\<lparr>timestamp = now, operation_type = operation,
                         character_count = char_count, credits_used = credits\<rparr>]\<rparr>
       \<and> (\<forall>kid. kid \<noteq> key_id api_key \<longrightarrow>
             credits_log (log_credit_usage now api_key char_count credits operation m) kid
               = credits_log m kid)
       \<and> credits_log_file (log_credit_usage now api_key char_count credits operation m)
           = Some (credits_log (log_credit_usage now api_key char_count credits operation m))"
  using assms
  by (auto simp: ledger_ok_def log_credit_usage_def save_credits_log_def Let_def dom_def
           split: if_splits option.splits)

theorem log_credit_usage_keeps_total_witness:
  "ledger_ok (credits_log \<lparr>api_keys = [''sk_0123456789''], current_index = 0,
        credits_log = [''sk_01234...'' \<mapsto> \<lparr>total_credits_used = 5, calls =
           [\<lparr>timestamp = ''t0'', operation_type = ''speech_synthesis'', character_count = 5, credits_used = 5\<rparr>]\<rparr>],
        credits_log_file = None, sent = []\<rparr>)
   \<and> credits_log (log_credit_usage ''t1'' ''sk_0123456789'' 7 7 ''sfx_generation''
         \<lparr>api_keys = [''sk_0123456789''], current_index = 0,
        credits_log = [''sk_01234...'' \<mapsto> \<lparr>total_credits_used = 5, calls =
           [\<lparr>timestamp = ''t0'', operation_type = ''speech_synthesis'', character_count = 5, credits_used = 5\<rparr>]\<rparr>],
        credits_log_file = None, sent = []\<rparr>) ''sk_01234...''
     = Some \<lparr>total_credits_used = 12, calls =
           [\<lparr>timestamp = ''t0'', operation_type = ''speech_synthesis'', character_count = 5, credits_used = 5\<rparr>,
            \<lparr>timestamp = ''t1'', operation_type = ''sfx_generation'', character_count = 7, credits_used = 7\<rparr>]\<rparr>"
proof -
  have h: "ledger_ok (credits_log \<lparr>api_keys = [''sk_0123456789''], current_index = 0,
        credits_log = [''sk_01234...'' \<mapsto> \<lparr>total_credits_used = 5, calls =
           [\<lparr>timestamp = ''t0'', operation_type = ''speech_synthesis'', character_count = 5, credits_used = 5\<rparr>]\<rparr>],
        credits_log_file = None, sent = []\<rparr>)"
    by (simp add: ledger_ok_def)
  show ?thesis
    using h log_credit_usage_keeps_total [OF h, of "''t1''" "''sk_0123456789''" 7 7 "''sfx_generation''"]
    by (simp add: key_id_def)
qed

subsection \<open>Retry and rotation\<close>

lemma attempt_once_Again:
  "attempt_once p net a hkey m = Again a' hkey' m' \<Longrightarrow> a' = a + 1"
  by (auto simp: attempt_once_def handle_exception_def Let_def
           split: option.splits outcome.splits if_splits prod.splits)

lemma cursor_step:
  "(c::nat) < length xs \<Longrightarrow> Suc c mod length xs < length xs"
  by (rule mod_less_divisor) (cases xs, auto)

lemma attempt_once_sent:
  assumes "current_index m < length (api_keys m)"
  shows "attempt_once p net a hkey m = Done r m' \<Longrightarrow>
           current_index m' < length (api_keys m') \<and> length (sent m') = Suc (length (sent m))"
    and "attempt_once p net a hkey m = Again a' hkey' m' \<Longrightarrow>
           current_index m' < length (api_keys m') \<and> length (sent m') = Suc (length (sent m))"
  using assms
  by (auto simp: attempt_once_def handle_exception_def get_next_api_key_def Let_def cursor_step
           split: option.splits outcome.splits if_splits prod.splits)

lemma attempt_once_failure_step:
  assumes "current_index m < length (api_keys m)" "retry_failed_calls p" "0 \<le> retry_delay p"
    and "failing (net (length (sent m))
           (case hkey of None \<Rightarrow> api_keys m ! current_index m | Some k \<Rightarrow> k))"
  shows "\<exists>hkey' m'. attempt_once p net a hkey m = Again (a + 1) hkey' m'
           \<and> length (sent m') = Suc (length (sent m))"
  using assms
  by (cases hkey)
     (auto simp: attempt_once_def handle_exception_def get_next_api_key_def Let_def failing_def
                 cursor_step
           split: outcome.splits)

lemma attempt_once_failing:
  assumes "current_index m < length (api_keys m)" "retry_failed_calls p" "0 \<le> retry_delay p"
    and "\<forall>i k. failing (net i k)"
  shows "\<exists>hkey' m'. attempt_once p net a hkey m = Again (a + 1) hkey' m'"
proof -
  have "failing (net (length (sent m))
           (case hkey of None \<Rightarrow> api_keys m ! current_index m | Some k \<Rightarrow> k))"
    using assms(4) by blast
  with assms(1,2,3) attempt_once_failure_step [of m p net hkey a] show ?thesis by blast
qed

lemma loop_sent_le:
  assumes "current_index m < length (api_keys m)"
    and "make_api_call_loop p net a hkey m = (r, m')"
  shows "length (sent m') \<le> length (sent m) + nat (max_retries p - a)"
  using assms
proof (induction p net a hkey m rule: make_api_call_loop.induct)
  case (1 p net a hkey m)
  show ?case
  proof (cases "a < max_retries p")
    case False
    then show ?thesis using "1.prems" by simp
  next
    case True
    show ?thesis
    proof (cases "attempt_once p net a hkey m")
      case (Done r1 m1)
      then have "m' = m1" using "1.prems"(2) True by simp
      then show ?thesis using attempt_once_sent(1) [OF "1.prems"(1) Done] True by simp
    next
      case (Again a1 h1 m1)
      have a1: "a1 = a + 1" using attempt_once_Again [OF Again] .
      have s: "current_index m1 < length (api_keys m1)" "length (sent m1) = Suc (length (sent m))"
        using attempt_once_sent(2) [OF "1.prems"(1) Again] by auto
      have "make_api_call_loop p net a1 h1 m1 = (r, m')"
        using "1.prems"(2) True Again by simp
      from "1.IH" [OF True Again s(1) this]
      show ?thesis using s(2) a1 True by simp
    qed
  qed
qed

lemma loop_all_failing:
  assumes "current_index m < length (api_keys m)" "retry_failed_calls p" "0 \<le> retry_delay p"
    and "\<forall>i k. failing (net i k)"
  shows "\<exists>hkey' m'. make_api_call_loop p net a hkey m = (Returned None hkey', m')
           \<and> length (sent m') = length (sent m) + nat (max_retries p - a)"
  using assms
proof (induction p net a hkey m rule: make_api_call_loop.induct)
  case (1 p net a hkey m)
  show ?case
  proof (cases "a < max_retries p")
    case False
    then show ?thesis by simp
  next
    case True
    obtain h1 m1 where ag: "attempt_once p net a hkey m = Again (a + 1) h1 m1"
      using attempt_once_failing [OF "1.prems", of a hkey] by blast
    have s: "current_index m1 < length (api_keys m1)" "length (sent m1) = Suc (length (sent m))"
      using attempt_once_sent(2) [OF "1.prems"(1) ag] by auto
    from "1.IH" [OF True ag s(1) "1.prems"(2,3,4)]
    obtain h2 m2 where r: "make_api_call_loop p net (a + 1) h1 m1 = (Returned None h2, m2)"
      "length (sent m2) = length (sent m1) + nat (max_retries p - (a + 1))" by blast
    have "make_api_call_loop p net a hkey m = (Returned None h2, m2)"
      using True ag r(1) by simp
    moreover have "length (sent m2) = length (sent m) + nat (max_retries p - a)"
      using r(2) s(2) True by simp
    ultimately show ?thesis by blast
  qed
qed


text \<open>
  C1. A call of \<open>make_api_call\<close> on a pool with a valid cursor issues at most
  \<open>max_retries\<close> requests (none when \<open>max_retries\<close> is not positive). With retrying enabled
  and a delay that \<^verbatim>\<open>time.sleep\<close> accepts, one pass through the loop whose request fails,
  whether with status 429 or 401, with any other status but 200, or by raising, issues
  exactly one request and goes round again with \<open>current_attempt + 1\<close>. When every request
  fails, exactly \<open>max_retries\<close> requests are issued and the call returns
  \<^verbatim>\<open>None\<close> as its response.
\<close>

theorem make_api_call_retry_budget:
  assumes "current_index m < length (api_keys m)"
  shows "length (sent (snd (make_api_call p net hkey m))) \<le> length (sent m) + nat (max_retries p)
       \<and> (retry_failed_calls p \<and> 0 \<le> retry_delay p \<longrightarrow>
            (\<forall>a hk m0.
                current_index m0 < length (api_keys m0) \<and>
                failing (net (length (sent m0))
                   (case hk of None \<Rightarrow> api_keys m0 ! current_index m0 | Some k \<Rightarrow> k)) \<longrightarrow>
                (\<exists>hk' m1. attempt_once p net a hk m0 = Again (a + 1) hk' m1
                    \<and> length (sent m1) = Suc (length (sent m0)))))
       \<and> (retry_failed_calls p \<and> 0 \<le> retry_delay p \<and> (\<forall>i k. failing (net i k)) \<longrightarrow>
            (\<exists>hkey'. fst (make_api_call p net hkey m) = Returned None hkey')
          \<and> length (sent (snd (make_api_call p net hkey m)))
                = length (sent m) + nat (max_retries p))"
proof (intro conjI impI allI)
  show "length (sent (snd (make_api_call p net hkey m))) \<le> length (sent m) + nat (max_retries p)"
    using loop_sent_le [OF assms, of p net 0 hkey] unfolding make_api_call_def
    by (cases "make_api_call_loop p net 0 hkey m") simp
next
  fix a hk and m0 :: manager
  assume "retry_failed_calls p \<and> 0 \<le> retry_delay p"
    and "current_index m0 < length (api_keys m0) \<and>
         failing (net (length (sent m0))
            (case hk of None \<Rightarrow> api_keys m0 ! current_index m0 | Some k \<Rightarrow> k))"
  then show "\<exists>hk' m1. attempt_once p net a hk m0 = Again (a + 1) hk' m1
                    \<and> length (sent m1) = Suc (length (sent m0))"
    using attempt_once_failure_step [of m0 p net hk a] by blast
next
  assume h: "retry_failed_calls p \<and> 0 \<le> retry_delay p \<and> (\<forall>i k. failing (net i k))"
  from h loop_all_failing [OF assms, of p net 0 hkey]
  obtain hkey' m' where r: "make_api_call_loop p net 0 hkey m = (Returned None hkey', m')"
    "length (sent m') = length (sent m) + nat (max_retries p - 0)" by blast
  show "\<exists>hkey'. fst (make_api_call p net hkey m) = Returned None hkey'"
    using r(1) by (simp add: make_api_call_def)
  show "length (sent (snd (make_api_call p net hkey m))) = length (sent m) + nat (max_retries p)"
    using r by (simp add: make_api_call_def)
qed

theorem make_api_call_retry_budget_witness:
  "length (sent (snd (make_api_call \<lparr>max_retries = 3, retry_delay = 2, retry_failed_calls = True\<rparr>
      (\<lambda>i k. if i = 0 then Status 429 [] else if i = 1 then RequestRaised else Status 500 [])
      None
      \<lparr>api_keys = [''k1'', ''k2''], current_index = 0, credits_log = Map.empty,
        credits_log_file = None, sent = []\<rparr>))) = 3
   \<and> (\<exists>hkey'. fst (make_api_call \<lparr>max_retries = 3, retry_delay = 2, retry_failed_calls = True\<rparr>
      (\<lambda>i k. if i = 0 then Status 429 [] else if i = 1 then RequestRaised else Status 500 [])
      None
      \<lparr>api_keys = [''k1'', ''k2''], current_index = 0, credits_log = Map.empty,
        credits_log_file = None, sent = []\<rparr>) = Returned None hkey')"
  using make_api_call_retry_budget
    [of "\<lparr>api_keys = [''k1'', ''k2''], current_index = 0, credits_log = Map.empty,
        credits_log_file = None, sent = []\<rparr>"
        "\<lparr>max_retries = 3, retry_delay = 2, retry_failed_calls = True\<rparr>"
        "(\<lambda>i k. if i = 0 then Status 429 [] else if i = 1 then RequestRaised else Status 500 [])"
        None]
  by (simp add: failing_def)

subsection \<open>Script parsing\<close>

text \<open>
  C5. The script \<^verbatim>\<open>[SPEAKER: A]\<close>, \<^verbatim>\<open>Hello\<close>, \<^verbatim>\<open>[SFX: door]\<close>, \<^verbatim>\<open>World\<close> (four lines) parses
  to the dialogue "Hello" of A, the effect "door" and the dialogue "World" of A. In
  general, a speaker tag flushes the buffer as a dialogue chunk of the previous speaker,
  adds no chunk of its own and makes the tag's name the current speaker; an SFX tag flushes
  the buffer and adds the effect chunk at once; the end of the input flushes what is
  left, and flushing an empty buffer adds nothing.
\<close>

theorem parse_speaker_sfx_example:
  "parse (''[SPEAKER: A]'' @ [LF] @ ''Hello'' @ [LF] @ ''[SFX: door]'' @ [LF] @ ''World'')
     = [Dialogue ''A'' ''Hello'', Sfx ''door'', Dialogue ''A'' ''World'']
   \<and> (\<forall>raw lines chunks current_speaker buffer name.
         strip raw \<noteq> [] \<and> match_tag ''[SPEAKER:'' (strip raw) = Some name \<longrightarrow>
           parse_lines (raw # lines) chunks current_speaker buffer
             = parse_lines lines (flush chunks current_speaker buffer) (strip name) [])
   \<and> (\<forall>raw lines chunks current_speaker buffer name.
         strip raw \<noteq> [] \<and> match_tag ''[SPEAKER:'' (strip raw) = None
           \<and> match_tag ''[SFX:'' (strip raw) = Some name \<longrightarrow>
           parse_lines (raw # lines) chunks current_speaker buffer
             = parse_lines lines (flush chunks current_speaker buffer @ [Sfx (strip name)])
                 current_speaker [])
   \<and> (\<forall>chunks current_speaker buffer.
         parse_lines [] chunks current_speaker buffer = flush chunks current_speaker buffer
         \<and> flush chunks current_speaker [] = chunks
         \<and> (buffer \<noteq> [] \<longrightarrow> flush chunks current_speaker buffer
               = chunks @ [Dialogue current_speaker (join_space buffer)]))"
proof (intro conjI allI impI)
  show "parse (''[SPEAKER: A]'' @ [LF] @ ''Hello'' @ [LF] @ ''[SFX: door]'' @ [LF] @ ''World'')
     = [Dialogue ''A'' ''Hello'', Sfx ''door'', Dialogue ''A'' ''World'']"
    by (simp add: parse_def LF_def CR_def strip_def is_space_def match_tag_def flush_def Let_def)
qed (simp_all add: flush_def Let_def)

theorem parse_speaker_sfx_example_witness:
  "parse_lines [''[SPEAKER: B]'', ''Bye''] [] ''A'' [''Hello'', ''there'']
     = [Dialogue ''A'' ''Hello there'', Dialogue ''B'' ''Bye'']"
proof -
  have m: "strip ''[SPEAKER: B]'' \<noteq> [] \<and> match_tag ''[SPEAKER:'' (strip ''[SPEAKER: B]'') = Some ''B''"
    by (simp add: strip_def is_space_def match_tag_def Let_def)
  have f: "[''Hello'', ''there''] \<noteq> ([] :: string list)" by simp
  from parse_speaker_sfx_example m
  have "parse_lines [''[SPEAKER: B]'', ''Bye''] [] ''A'' [''Hello'', ''there'']
          = parse_lines [''Bye''] (flush [] ''A'' [''Hello'', ''there'']) (strip ''B'') []"
    by blast
  moreover from parse_speaker_sfx_example f
  have "flush [] ''A'' [''Hello'', ''there'']
          = [] @ [Dialogue ''A'' (join_space [''Hello'', ''there''])]"
    by blast
  ultimately show ?thesis
    by (simp add: strip_def is_space_def match_tag_def flush_def Let_def)
qed

subsection \<open>Clip fitting\<close>

text \<open>
  C8. Fitting a clip whose \<^verbatim>\<open>len\<close> is 0 to a positive target raises \<^verbatim>\<open>ZeroDivisionError\<close> in
  the tiling branch, in both versions. Fitting a clip whose \<^verbatim>\<open>len\<close> is positive returns a
  result for every target in version 2. In version 1 the division sees the clip as the
  first \<^verbatim>\<open>if\<close> left it: a clip whose \<^verbatim>\<open>len\<close> is positive gives a result when it is not
  longer than the target, when the target is not positive, and when its slice up to the
  target has a positive \<^verbatim>\<open>len\<close>.
\<close>

theorem fit_duration_zero_length:
  "(len w clip = 0 \<and> 0 < t \<longrightarrow>
      fit_duration w clip t = Inl ZeroDivisionError
      \<and> fit_duration_v1 w clip t = Inl ZeroDivisionError)
   \<and> (0 < len w clip \<longrightarrow> (\<exists>fitted. fit_duration w clip t = Inr fitted))
   \<and> (0 < len w clip
        \<and> (int (len w clip) \<le> t \<or> t \<le> 0 \<or> 0 < len w (slice_to w clip t)) \<longrightarrow>
      (\<exists>fitted. fit_duration_v1 w clip t = Inr fitted))"
  by (auto simp: fit_duration_def fit_duration_v1_def trim_v1_def Let_def)

theorem fit_duration_zero_length_witness:
  "fit_duration \<lparr>service = (\<lambda>i k. Status 500 []), clock = (\<lambda>n. []), export_ok = True,
       decode = (\<lambda>body. None), silent = (\<lambda>d. replicate (nat d) (0::int)),
       seg_plus = (\<lambda>a b. a @ b), seg_times = (\<lambda>a n. concat (replicate (nat n) a)),
       len = length, slice_to = (\<lambda>a t. take (nat t) a),
       slice_from = (\<lambda>a t. drop (nat t) a),
       overlay = (\<lambda>a b. map2 (\<lambda>x y. max (- 32768) (min 32767 (x + y))) a
                            (b @ replicate (length a - length b) 0)),
       apply_gain = (\<lambda>g a. a), normalize_seg = (\<lambda>a. a)\<rparr> [] 3000 = Inl ZeroDivisionError
   \<and> fit_duration_v1 \<lparr>service = (\<lambda>i k. Status 500 []), clock = (\<lambda>n. []), export_ok = True,
       decode = (\<lambda>body. None), silent = (\<lambda>d. replicate (nat d) (0::int)),
       seg_plus = (\<lambda>a b. a @ b), seg_times = (\<lambda>a n. concat (replicate (nat n) a)),
       len = length, slice_to = (\<lambda>a t. take (nat t) a),
       slice_from = (\<lambda>a t. drop (nat t) a),
       overlay = (\<lambda>a b. map2 (\<lambda>x y. max (- 32768) (min 32767 (x + y))) a
                            (b @ replicate (length a - length b) 0)),
       apply_gain = (\<lambda>g a. a), normalize_seg = (\<lambda>a. a)\<rparr> [] 3000 = Inl ZeroDivisionError
   \<and> (\<exists>fitted. fit_duration \<lparr>service = (\<lambda>i k. Status 500 []), clock = (\<lambda>n. []), export_ok = True,
       decode = (\<lambda>body. None), silent = (\<lambda>d. replicate (nat d) (0::int)),
       seg_plus = (\<lambda>a b. a @ b), seg_times = (\<lambda>a n. concat (replicate (nat n) a)),
       len = length, slice_to = (\<lambda>a t. take (nat t) a),
       slice_from = (\<lambda>a t. drop (nat t) a),
       overlay = (\<lambda>a b. map2 (\<lambda>x y. max (- 32768) (min 32767 (x + y))) a
                            (b @ replicate (length a - length b) 0)),
       apply_gain = (\<lambda>g a. a), normalize_seg = (\<lambda>a. a)\<rparr> [5] 3000 = Inr fitted)
   \<and> (\<exists>fitted. fit_duration_v1 \<lparr>service = (\<lambda>i k. Status 500 []), clock = (\<lambda>n. []), export_ok = True,
       decode = (\<lambda>body. None), silent = (\<lambda>d. replicate (nat d) (0::int)),
       seg_plus = (\<lambda>a b. a @ b), seg_times = (\<lambda>a n. concat (replicate (nat n) a)),
       len = length, slice_to = (\<lambda>a t. take (nat t) a),
       slice_from = (\<lambda>a t. drop (nat t) a),
       overlay = (\<lambda>a b. map2 (\<lambda>x y. max (- 32768) (min 32767 (x + y))) a
                            (b @ replicate (length a - length b) 0)),
       apply_gain = (\<lambda>g a. a), normalize_seg = (\<lambda>a. a)\<rparr> [5] 3000 = Inr fitted)"
proof -
  let ?w = "\<lparr>service = (\<lambda>i k. Status 500 []), clock = (\<lambda>n. []), export_ok = True,
       decode = (\<lambda>body. None), silent = (\<lambda>d. replicate (nat d) (0::int)),
       seg_plus = (\<lambda>a b. a @ b), seg_times = (\<lambda>a n. concat (replicate (nat n) a)),
       len = length, slice_to = (\<lambda>a t. take (nat t) a),
       slice_from = (\<lambda>a t. drop (nat t) a),
       overlay = (\<lambda>a b. map2 (\<lambda>x y. max (- 32768) (min 32767 (x + y))) a
                            (b @ replicate (length a - length b) 0)),
       apply_gain = (\<lambda>g a. a), normalize_seg = (\<lambda>a. a)\<rparr>"
  note t = fit_duration_zero_length [of ?w _ 3000]
  have z: "len ?w [] = 0 \<and> (0::int) < 3000" by simp
  have p: "0 < len ?w [5]" by simp
  have q: "0 < len ?w [5]
           \<and> (int (len ?w [5]) \<le> 3000 \<or> (3000::int) \<le> 0 \<or> 0 < len ?w (slice_to ?w [5] 3000))"
    by simp
  from t [of "[]"] z
  have "fit_duration ?w [] 3000 = Inl ZeroDivisionError
      \<and> fit_duration_v1 ?w [] 3000 = Inl ZeroDivisionError" by blast
  moreover from t [of "[5]"] p
  have "\<exists>fitted. fit_duration ?w [5] 3000 = Inr fitted" by blast
  moreover from t [of "[5]"] q
  have "\<exists>fitted. fit_duration_v1 ?w [5] 3000 = Inr fitted" by blast
  ultimately show ?thesis by blast
qed

text \<open>
  C4. What \<open>fit_duration\<close> returns, by the library's \<^verbatim>\<open>len\<close> of the clip: the slice up to
  \<open>t\<close> when the clip is longer, the clip itself when the lengths agree, and otherwise
  the slice up to \<open>t\<close> of \<open>t div len + 1\<close> copies. The number of copies comes from
  \<^verbatim>\<open>len\<close>, the length in whole milliseconds, alone: a clip with \<^verbatim>\<open>len\<close> 273 fitted to 3000
  is tiled 11 times, whatever its duration in frames is.
\<close>

theorem fit_duration_tiles_by_len:
  "(int (len w sfx) > t \<longrightarrow> fit_duration w sfx t = Inr (slice_to w sfx t))
   \<and> (int (len w sfx) = t \<longrightarrow> fit_duration w sfx t = Inr sfx)
   \<and> (0 < len w sfx \<and> int (len w sfx) < t \<longrightarrow>
        fit_duration w sfx t
          = Inr (slice_to w (seg_times w sfx (t div int (len w sfx) + 1)) t))
   \<and> (len w sfx = 273 \<longrightarrow>
        fit_duration w sfx 3000 = Inr (slice_to w (seg_times w sfx 11) 3000))"
  by (auto simp: fit_duration_def Let_def)

theorem fit_duration_tiles_by_len_witness:
  "fit_duration \<lparr>service = (\<lambda>i k. Status 500 []), clock = (\<lambda>n. []), export_ok = True,
       decode = (\<lambda>body. None), silent = (\<lambda>d. replicate (nat d) (0::int)),
       seg_plus = (\<lambda>a b. a @ b), seg_times = (\<lambda>a n. concat (replicate (nat n) a)),
       len = length, slice_to = (\<lambda>a t. take (nat t) a),
       slice_from = (\<lambda>a t. drop (nat t) a),
       overlay = (\<lambda>a b. map2 (\<lambda>x y. max (- 32768) (min 32767 (x + y))) a
                            (b @ replicate (length a - length b) 0)),
       apply_gain = (\<lambda>g a. a), normalize_seg = (\<lambda>a. a)\<rparr> (replicate 273 1) 3000
     = Inr (slice_to \<lparr>service = (\<lambda>i k. Status 500 []), clock = (\<lambda>n. []), export_ok = True,
       decode = (\<lambda>body. None), silent = (\<lambda>d. replicate (nat d) (0::int)),
       seg_plus = (\<lambda>a b. a @ b), seg_times = (\<lambda>a n. concat (replicate (nat n) a)),
       len = length, slice_to = (\<lambda>a t. take (nat t) a),
       slice_from = (\<lambda>a t. drop (nat t) a),
       overlay = (\<lambda>a b. map2 (\<lambda>x y. max (- 32768) (min 32767 (x + y))) a
                            (b @ replicate (length a - length b) 0)),
       apply_gain = (\<lambda>g a. a), normalize_seg = (\<lambda>a. a)\<rparr>
              (seg_times \<lparr>service = (\<lambda>i k. Status 500 []), clock = (\<lambda>n. []), export_ok = True,
       decode = (\<lambda>body. None), silent = (\<lambda>d. replicate (nat d) (0::int)),
       seg_plus = (\<lambda>a b. a @ b), seg_times = (\<lambda>a n. concat (replicate (nat n) a)),
       len = length, slice_to = (\<lambda>a t. take (nat t) a),
       slice_from = (\<lambda>a t. drop (nat t) a),
       overlay = (\<lambda>a b. map2 (\<lambda>x y. max (- 32768) (min 32767 (x + y))) a
                            (b @ replicate (length a - length b) 0)),
       apply_gain = (\<lambda>g a. a), normalize_seg = (\<lambda>a. a)\<rparr> (replicate 273 1) 11) 3000)"
proof -
  let ?w = "\<lparr>service = (\<lambda>i k. Status 500 []), clock = (\<lambda>n. []), export_ok = True,
       decode = (\<lambda>body. None), silent = (\<lambda>d. replicate (nat d) (0::int)),
       seg_plus = (\<lambda>a b. a @ b), seg_times = (\<lambda>a n. concat (replicate (nat n) a)),
       len = length, slice_to = (\<lambda>a t. take (nat t) a),
       slice_from = (\<lambda>a t. drop (nat t) a),
       overlay = (\<lambda>a b. map2 (\<lambda>x y. max (- 32768) (min 32767 (x + y))) a
                            (b @ replicate (length a - length b) 0)),
       apply_gain = (\<lambda>g a. a), normalize_seg = (\<lambda>a. a)\<rparr>"
  have l: "len ?w (replicate 273 1) = 273" by simp
  from fit_duration_tiles_by_len [of 3000 ?w "replicate 273 1"] l
  show ?thesis by blast
qed

subsection \<open>Mixing an effect into the timeline\<close>

lemma mix_sfx_append:
  assumes "len w clip \<noteq> 0" "len w podcast \<le> 2000 \<or> \<not> sfx_overlap cfg"
  shows "mix_chunk cfg w (Sfx e) podcast (Some clip)
           = seg_plus w (seg_plus w podcast clip) (silent w (silence_between_chunks cfg))"
  using assms by (auto simp: mix_chunk_def place_audio_def)

lemma mix_sfx_overlap:
  assumes "len w clip \<noteq> 0" "sfx_overlap cfg" "2000 < len w podcast"
  shows "mix_chunk cfg w (Sfx e) podcast (Some clip)
           = seg_plus w
               (seg_plus w (slice_to w podcast (int (len w podcast) - 2000))
                  (overlay w (slice_from w podcast (int (len w podcast) - 2000))
                     (if len w clip > len w (slice_from w podcast (int (len w podcast) - 2000))
                      then slice_to w clip
                             (int (len w (slice_from w podcast (int (len w podcast) - 2000))))
                      else clip)))
               (silent w (silence_between_chunks cfg))"
  using assms by (simp add: mix_chunk_def place_audio_def Let_def)

lemma mix_chunk_skip:
  assumes "\<not> truthy w produced"
  shows "mix_chunk cfg w chunk podcast produced = seg_plus w podcast (silent w (silence_between_chunks cfg))"
  using assms
  by (cases chunk; cases produced) (simp_all add: mix_chunk_def place_audio_def truthy_def)

text \<open>
  C3, as amended. When the clip of an effect chunk is mixed in and the podcast is at most
  2000 ms long, or \<open>sfx_overlap\<close> is off, the podcast becomes the podcast, then the clip,
  then the silence between chunks: the clip is appended, nothing is overlaid. When
  \<open>sfx_overlap\<close> is on and the podcast is longer than 2000 ms, the podcast becomes its
  part before the last 2000 ms, then its last 2000 ms with the clip overlaid (the clip
  cut to the length of that tail if it is longer), then the silence between chunks: the
  clip is mixed onto the tail and adds no segment of its own. The lengths compared are
  the library's \<^verbatim>\<open>len\<close>. In any measure \<open>\<mu>\<close> of segments that \<^verbatim>\<open>+\<close> adds up, the first case
  makes the podcast grow by exactly the clip and the silence; when moreover an overlay
  measures as its base and the two slices of the podcast measure as the podcast, the
  second case makes it grow by exactly the silence.
\<close>

theorem sfx_chunk_mixing:
  "(len w clip \<noteq> 0 \<and> (len w podcast \<le> 2000 \<or> \<not> sfx_overlap cfg) \<longrightarrow>
      mix_chunk cfg w (Sfx e) podcast (Some clip)
        = seg_plus w (seg_plus w podcast clip) (silent w (silence_between_chunks cfg)))
   \<and> (len w clip \<noteq> 0 \<and> sfx_overlap cfg \<and> 2000 < len w podcast \<longrightarrow>
      mix_chunk cfg w (Sfx e) podcast (Some clip)
        = seg_plus w
            (seg_plus w (slice_to w podcast (int (len w podcast) - 2000))
               (overlay w (slice_from w podcast (int (len w podcast) - 2000))
                  (if len w clip > len w (slice_from w podcast (int (len w podcast) - 2000))
                   then slice_to w clip
                          (int (len w (slice_from w podcast (int (len w podcast) - 2000))))
                   else clip)))
            (silent w (silence_between_chunks cfg)))
   \<and> (len w clip = 0 \<longrightarrow>
      mix_chunk cfg w (Sfx e) podcast (Some clip) = seg_plus w podcast (silent w (silence_between_chunks cfg)))
   \<and> ((\<forall>a b. \<mu> (seg_plus w a b) = \<mu> a + \<mu> b)
        \<and> len w clip \<noteq> 0 \<and> (len w podcast \<le> 2000 \<or> \<not> sfx_overlap cfg) \<longrightarrow>
      \<mu> (mix_chunk cfg w (Sfx e) podcast (Some clip)) = \<mu> podcast + \<mu> clip + \<mu> (silent w (silence_between_chunks cfg)))
   \<and> ((\<forall>a b. \<mu> (seg_plus w a b) = \<mu> a + \<mu> b)
        \<and> (\<forall>a b. \<mu> (overlay w a b) = \<mu> a)
        \<and> \<mu> (slice_to w podcast (int (len w podcast) - 2000))
            + \<mu> (slice_from w podcast (int (len w podcast) - 2000)) = \<mu> podcast
        \<and> len w clip \<noteq> 0 \<and> sfx_overlap cfg \<and> 2000 < len w podcast \<longrightarrow>
      \<mu> (mix_chunk cfg w (Sfx e) podcast (Some clip)) = \<mu> podcast + \<mu> (silent w (silence_between_chunks cfg)))"
proof (intro conjI impI)
  assume "len w clip \<noteq> 0 \<and> (len w podcast \<le> 2000 \<or> \<not> sfx_overlap cfg)"
  then show "mix_chunk cfg w (Sfx e) podcast (Some clip)
        = seg_plus w (seg_plus w podcast clip) (silent w (silence_between_chunks cfg))"
    by (simp add: mix_sfx_append)
next
  assume "len w clip \<noteq> 0 \<and> sfx_overlap cfg \<and> 2000 < len w podcast"
  then show "mix_chunk cfg w (Sfx e) podcast (Some clip)
        = seg_plus w
            (seg_plus w (slice_to w podcast (int (len w podcast) - 2000))
               (overlay w (slice_from w podcast (int (len w podcast) - 2000))
                  (if len w clip > len w (slice_from w podcast (int (len w podcast) - 2000))
                   then slice_to w clip
                          (int (len w (slice_from w podcast (int (len w podcast) - 2000))))
                   else clip)))
            (silent w (silence_between_chunks cfg))"
    by (simp add: mix_sfx_overlap)
next
  assume "len w clip = 0"
  then have "\<not> truthy w (Some clip)" by (simp add: truthy_def)
  then show "mix_chunk cfg w (Sfx e) podcast (Some clip) = seg_plus w podcast (silent w (silence_between_chunks cfg))"
    by (rule mix_chunk_skip)
next
  assume "(\<forall>a b. \<mu> (seg_plus w a b) = \<mu> a + \<mu> b)
        \<and> len w clip \<noteq> 0 \<and> (len w podcast \<le> 2000 \<or> \<not> sfx_overlap cfg)"
  then show "\<mu> (mix_chunk cfg w (Sfx e) podcast (Some clip)) = \<mu> podcast + \<mu> clip + \<mu> (silent w (silence_between_chunks cfg))"
    by (simp add: mix_sfx_append)
next
  assume h: "(\<forall>a b. \<mu> (seg_plus w a b) = \<mu> a + \<mu> b)
        \<and> (\<forall>a b. \<mu> (overlay w a b) = \<mu> a)
        \<and> \<mu> (slice_to w podcast (int (len w podcast) - 2000))
            + \<mu> (slice_from w podcast (int (len w podcast) - 2000)) = \<mu> podcast
        \<and> len w clip \<noteq> 0 \<and> sfx_overlap cfg \<and> 2000 < len w podcast"
  then have "mix_chunk cfg w (Sfx e) podcast (Some clip)
           = seg_plus w
               (seg_plus w (slice_to w podcast (int (len w podcast) - 2000))
                  (overlay w (slice_from w podcast (int (len w podcast) - 2000))
                     (if len w clip > len w (slice_from w podcast (int (len w podcast) - 2000))
                      then slice_to w clip
                             (int (len w (slice_from w podcast (int (len w podcast) - 2000))))
                      else clip)))
               (silent w (silence_between_chunks cfg))"
    by (simp add: mix_sfx_overlap)
  then show "\<mu> (mix_chunk cfg w (Sfx e) podcast (Some clip)) = \<mu> podcast + \<mu> (silent w (silence_between_chunks cfg))"
    using h by simp
qed

theorem sfx_chunk_mixing_witness:
  "mix_chunk DEFAULT_CONFIG \<lparr>service = (\<lambda>i k. Status 500 []), clock = (\<lambda>n. []), export_ok = True,
       decode = (\<lambda>body. None), silent = (\<lambda>d. replicate (nat d) (0::int)),
       seg_plus = (\<lambda>a b. a @ b), seg_times = (\<lambda>a n. concat (replicate (nat n) a)),
       len = length, slice_to = (\<lambda>a t. take (nat t) a),
       slice_from = (\<lambda>a t. drop (nat t) a),
       overlay = (\<lambda>a b. map2 (\<lambda>x y. max (- 32768) (min 32767 (x + y))) a
                            (b @ replicate (length a - length b) 0)),
       apply_gain = (\<lambda>g a. a), normalize_seg = (\<lambda>a. a)\<rparr> (Sfx ''door'') (replicate 2500 7) (Some (replicate 3000 1))
     = replicate 500 7 @ replicate 2000 8 @ replicate 200 0
   \<and> mix_chunk DEFAULT_CONFIG \<lparr>service = (\<lambda>i k. Status 500 []), clock = (\<lambda>n. []), export_ok = True,
       decode = (\<lambda>body. None), silent = (\<lambda>d. replicate (nat d) (0::int)),
       seg_plus = (\<lambda>a b. a @ b), seg_times = (\<lambda>a n. concat (replicate (nat n) a)),
       len = length, slice_to = (\<lambda>a t. take (nat t) a),
       slice_from = (\<lambda>a t. drop (nat t) a),
       overlay = (\<lambda>a b. map2 (\<lambda>x y. max (- 32768) (min 32767 (x + y))) a
                            (b @ replicate (length a - length b) 0)),
       apply_gain = (\<lambda>g a. a), normalize_seg = (\<lambda>a. a)\<rparr> (Sfx ''door'') (replicate 500 7) (Some (replicate 3000 1))
     = replicate 500 7 @ replicate 3000 1 @ replicate 200 0
   \<and> mix_chunk DEFAULT_CONFIG \<lparr>service = (\<lambda>i k. Status 500 []), clock = (\<lambda>n. []), export_ok = True,
       decode = (\<lambda>body. None), silent = (\<lambda>d. replicate (nat d) (0::int)),
       seg_plus = (\<lambda>a b. a @ b), seg_times = (\<lambda>a n. concat (replicate (nat n) a)),
       len = length, slice_to = (\<lambda>a t. take (nat t) a),
       slice_from = (\<lambda>a t. drop (nat t) a),
       overlay = (\<lambda>a b. map2 (\<lambda>x y. max (- 32768) (min 32767 (x + y))) a
                            (b @ replicate (length a - length b) 0)),
       apply_gain = (\<lambda>g a. a), normalize_seg = (\<lambda>a. a)\<rparr> (Sfx ''door'') (replicate 500 7) (Some [])
     = replicate 500 7 @ replicate 200 0
   \<and> length (mix_chunk DEFAULT_CONFIG \<lparr>service = (\<lambda>i k. Status 500 []), clock = (\<lambda>n. []), export_ok = True,
       decode = (\<lambda>body. None), silent = (\<lambda>d. replicate (nat d) (0::int)),
       seg_plus = (\<lambda>a b. a @ b), seg_times = (\<lambda>a n. concat (replicate (nat n) a)),
       len = length, slice_to = (\<lambda>a t. take (nat t) a),
       slice_from = (\<lambda>a t. drop (nat t) a),
       overlay = (\<lambda>a b. map2 (\<lambda>x y. max (- 32768) (min 32767 (x + y))) a
                            (b @ replicate (length a - length b) 0)),
       apply_gain = (\<lambda>g a. a), normalize_seg = (\<lambda>a. a)\<rparr> (Sfx ''door'') (replicate 500 7)
               (Some (replicate 3000 1))) = 500 + 3000 + 200
   \<and> length (mix_chunk DEFAULT_CONFIG \<lparr>service = (\<lambda>i k. Status 500 []), clock = (\<lambda>n. []), export_ok = True,
       decode = (\<lambda>body. None), silent = (\<lambda>d. replicate (nat d) (0::int)),
       seg_plus = (\<lambda>a b. a @ b), seg_times = (\<lambda>a n. concat (replicate (nat n) a)),
       len = length, slice_to = (\<lambda>a t. take (nat t) a),
       slice_from = (\<lambda>a t. drop (nat t) a),
       overlay = (\<lambda>a b. map2 (\<lambda>x y. max (- 32768) (min 32767 (x + y))) a
                            (b @ replicate (length a - length b) 0)),
       apply_gain = (\<lambda>g a. a), normalize_seg = (\<lambda>a. a)\<rparr> (Sfx ''door'') (replicate 2500 7)
               (Some (replicate 3000 1))) = 2500 + 200"
proof -
  let ?w = "\<lparr>service = (\<lambda>i k. Status 500 []), clock = (\<lambda>n. []), export_ok = True,
       decode = (\<lambda>body. None), silent = (\<lambda>d. replicate (nat d) (0::int)),
       seg_plus = (\<lambda>a b. a @ b), seg_times = (\<lambda>a n. concat (replicate (nat n) a)),
       len = length, slice_to = (\<lambda>a t. take (nat t) a),
       slice_from = (\<lambda>a t. drop (nat t) a),
       overlay = (\<lambda>a b. map2 (\<lambda>x y. max (- 32768) (min 32767 (x + y))) a
                            (b @ replicate (length a - length b) 0)),
       apply_gain = (\<lambda>g a. a), normalize_seg = (\<lambda>a. a)\<rparr>"
  have c: "sfx_overlap DEFAULT_CONFIG" "silence_between_chunks DEFAULT_CONFIG = 200"
    by (simp_all add: DEFAULT_CONFIG_def)
  have o: "len ?w (replicate 3000 (1::int)) \<noteq> 0 \<and> sfx_overlap DEFAULT_CONFIG
           \<and> 2000 < len ?w (replicate 2500 (7::int))"
    using c(1) by simp
  have a: "len ?w (replicate 3000 (1::int)) \<noteq> 0
           \<and> (len ?w (replicate 500 (7::int)) \<le> 2000 \<or> \<not> sfx_overlap DEFAULT_CONFIG)"
    by simp
  have z: "len ?w ([] :: int list) = 0" by simp
  have m: "map2 (\<lambda>x y. max (- 32768) (min 32767 (x + y))) (replicate 2000 (7::int))
             (replicate 2000 1) = replicate 2000 8"
    by (simp add: zip_replicate)
  note t = sfx_chunk_mixing [of ?w _ _ DEFAULT_CONFIG "''door''" length]
  from t [of "replicate 3000 1" "replicate 2500 7"] o
  have "mix_chunk DEFAULT_CONFIG ?w (Sfx ''door'') (replicate 2500 7) (Some (replicate 3000 1))
     = seg_plus ?w
            (seg_plus ?w (slice_to ?w (replicate 2500 7) (int (len ?w (replicate 2500 (7::int))) - 2000))
               (overlay ?w (slice_from ?w (replicate 2500 7) (int (len ?w (replicate 2500 (7::int))) - 2000))
                  (if len ?w (replicate 3000 (1::int)) > len ?w (slice_from ?w (replicate 2500 (7::int)) (int (len ?w (replicate 2500 (7::int))) - 2000))
                   then slice_to ?w (replicate 3000 1)
                          (int (len ?w (slice_from ?w (replicate 2500 (7::int)) (int (len ?w (replicate 2500 (7::int))) - 2000))))
                   else replicate 3000 1)))
            (silent ?w (silence_between_chunks DEFAULT_CONFIG))"
    by blast
  then have "mix_chunk DEFAULT_CONFIG ?w (Sfx ''door'') (replicate 2500 7) (Some (replicate 3000 1))
     = replicate 500 7 @ replicate 2000 8 @ replicate 200 0"
    using c(2) m by simp
  moreover
  from t [of "replicate 3000 1" "replicate 500 7"] a
  have "mix_chunk DEFAULT_CONFIG ?w (Sfx ''door'') (replicate 500 7) (Some (replicate 3000 1))
     = seg_plus ?w (seg_plus ?w (replicate 500 7) (replicate 3000 1))
         (silent ?w (silence_between_chunks DEFAULT_CONFIG))"
    by blast
  then have "mix_chunk DEFAULT_CONFIG ?w (Sfx ''door'') (replicate 500 7) (Some (replicate 3000 1))
     = replicate 500 7 @ replicate 3000 1 @ replicate 200 0"
    using c(2) by simp
  moreover
  from t [of "[]" "replicate 500 7"] z
  have "mix_chunk DEFAULT_CONFIG ?w (Sfx ''door'') (replicate 500 7) (Some [])
     = seg_plus ?w (replicate 500 7) (silent ?w (silence_between_chunks DEFAULT_CONFIG))"
    by blast
  then have "mix_chunk DEFAULT_CONFIG ?w (Sfx ''door'') (replicate 500 7) (Some [])
     = replicate 500 7 @ replicate 200 0"
    using c(2) by simp
  moreover
  have ma: "(\<forall>a b. length (seg_plus ?w a b) = length a + length b)
        \<and> len ?w (replicate 3000 (1::int)) \<noteq> 0
        \<and> (len ?w (replicate 500 (7::int)) \<le> 2000 \<or> \<not> sfx_overlap DEFAULT_CONFIG)"
    by simp
  from t [of "replicate 3000 1" "replicate 500 7"] ma
  have "length (mix_chunk DEFAULT_CONFIG ?w (Sfx ''door'') (replicate 500 7)
                  (Some (replicate 3000 1)))
        = length (replicate 500 (7::int)) + length (replicate 3000 (1::int))
          + length (silent ?w (silence_between_chunks DEFAULT_CONFIG))"
    by blast
  then have "length (mix_chunk DEFAULT_CONFIG ?w (Sfx ''door'') (replicate 500 7)
                  (Some (replicate 3000 1))) = 500 + 3000 + 200"
    using c(2) by simp
  moreover
  have mo: "(\<forall>a b. length (seg_plus ?w a b) = length a + length b)
        \<and> (\<forall>a b. length (overlay ?w a b) = length a)
        \<and> length (slice_to ?w (replicate 2500 (7::int)) (int (len ?w (replicate 2500 (7::int))) - 2000))
            + length (slice_from ?w (replicate 2500 (7::int)) (int (len ?w (replicate 2500 (7::int))) - 2000))
          = length (replicate 2500 (7::int))
        \<and> len ?w (replicate 3000 (1::int)) \<noteq> 0 \<and> sfx_overlap DEFAULT_CONFIG
        \<and> 2000 < len ?w (replicate 2500 (7::int))"
    using c(1) by simp
  from t [of "replicate 3000 1" "replicate 2500 7"] mo
  have "length (mix_chunk DEFAULT_CONFIG ?w (Sfx ''door'') (replicate 2500 7)
                  (Some (replicate 3000 1)))
        = length (replicate 2500 (7::int))
          + length (silent ?w (silence_between_chunks DEFAULT_CONFIG))"
    by blast
  then have "length (mix_chunk DEFAULT_CONFIG ?w (Sfx ''door'') (replicate 2500 7)
                  (Some (replicate 3000 1))) = 2500 + 200"
    using c(2) by simp
  ultimately show ?thesis by blast
qed

text \<open>
  C3, as stated, fails when \<open>sfx_overlap\<close> is off. In a library that keeps one sample per
  millisecond, a 1 ms clip mixed into a podcast of 2001 ms makes it grow by 201 ms, more
  than \<open>max 0 (1 - 2000) + 200\<close>, and nothing is overlaid.
\<close>

theorem sfx_overlap_disabled_counterexample:
  "\<not> len \<lparr>service = (\<lambda>i k. Status 500 []), clock = (\<lambda>n. []), export_ok = True,
       decode = (\<lambda>body. None), silent = (\<lambda>d. replicate (nat d) (0::int)),
       seg_plus = (\<lambda>a b. a @ b), seg_times = (\<lambda>a n. concat (replicate (nat n) a)),
       len = length, slice_to = (\<lambda>a t. take (nat t) a),
       slice_from = (\<lambda>a t. drop (nat t) a),
       overlay = (\<lambda>a b. map2 (\<lambda>x y. max (- 32768) (min 32767 (x + y))) a
                            (b @ replicate (length a - length b) 0)),
       apply_gain = (\<lambda>g a. a), normalize_seg = (\<lambda>a. a)\<rparr>
        (mix_chunk (DEFAULT_CONFIG\<lparr>sfx_overlap := False\<rparr>) \<lparr>service = (\<lambda>i k. Status 500 []), clock = (\<lambda>n. []), export_ok = True,
       decode = (\<lambda>body. None), silent = (\<lambda>d. replicate (nat d) (0::int)),
       seg_plus = (\<lambda>a b. a @ b), seg_times = (\<lambda>a n. concat (replicate (nat n) a)),
       len = length, slice_to = (\<lambda>a t. take (nat t) a),
       slice_from = (\<lambda>a t. drop (nat t) a),
       overlay = (\<lambda>a b. map2 (\<lambda>x y. max (- 32768) (min 32767 (x + y))) a
                            (b @ replicate (length a - length b) 0)),
       apply_gain = (\<lambda>g a. a), normalize_seg = (\<lambda>a. a)\<rparr> (Sfx ''door'')
           (replicate 2001 0) (Some [1]))
       \<le> len \<lparr>service = (\<lambda>i k. Status 500 []), clock = (\<lambda>n. []), export_ok = True,
       decode = (\<lambda>body. None), silent = (\<lambda>d. replicate (nat d) (0::int)),
       seg_plus = (\<lambda>a b. a @ b), seg_times = (\<lambda>a n. concat (replicate (nat n) a)),
       len = length, slice_to = (\<lambda>a t. take (nat t) a),
       slice_from = (\<lambda>a t. drop (nat t) a),
       overlay = (\<lambda>a b. map2 (\<lambda>x y. max (- 32768) (min 32767 (x + y))) a
                            (b @ replicate (length a - length b) 0)),
       apply_gain = (\<lambda>g a. a), normalize_seg = (\<lambda>a. a)\<rparr> (replicate 2001 0)
           + (len \<lparr>service = (\<lambda>i k. Status 500 []), clock = (\<lambda>n. []), export_ok = True,
       decode = (\<lambda>body. None), silent = (\<lambda>d. replicate (nat d) (0::int)),
       seg_plus = (\<lambda>a b. a @ b), seg_times = (\<lambda>a n. concat (replicate (nat n) a)),
       len = length, slice_to = (\<lambda>a t. take (nat t) a),
       slice_from = (\<lambda>a t. drop (nat t) a),
       overlay = (\<lambda>a b. map2 (\<lambda>x y. max (- 32768) (min 32767 (x + y))) a
                            (b @ replicate (length a - length b) 0)),
       apply_gain = (\<lambda>g a. a), normalize_seg = (\<lambda>a. a)\<rparr> [1] - 2000)
           + nat (silence_between_chunks (DEFAULT_CONFIG\<lparr>sfx_overlap := False\<rparr>))"
  by (simp add: mix_chunk_def place_audio_def DEFAULT_CONFIG_def)

subsection \<open>The generation loop\<close>

lemma attempt_once_no_response:
  assumes "\<forall>i k. failing (net i k)" "attempt_once p net a hkey m = Done r m'"
  shows "r = Raised \<or> (\<exists>k. r = Returned None k)"
proof -
  have f: "\<And>i k c. net i k \<noteq> Status 200 c"
    using assms(1) by (auto simp: failing_def split: outcome.splits)
  show ?thesis
    using assms(2) f
    by (auto simp: attempt_once_def handle_exception_def Let_def
             split: option.splits outcome.splits if_splits prod.splits)
qed

lemma loop_no_response:
  assumes "\<forall>i k. failing (net i k)" "make_api_call_loop p net a hkey m = (r, m')"
  shows "r = Raised \<or> (\<exists>k. r = Returned None k)"
  using assms
proof (induction p net a hkey m rule: make_api_call_loop.induct)
  case (1 p net a hkey m)
  show ?case
  proof (cases "a < max_retries p")
    case False
    then show ?thesis using "1.prems"(2) by auto
  next
    case True
    show ?thesis
    proof (cases "attempt_once p net a hkey m")
      case (Done r1 m1)
      then have "r = r1" using "1.prems"(2) True by simp
      then show ?thesis using attempt_once_no_response [OF "1.prems"(1) Done] by simp
    next
      case (Again a1 h1 m1)
      then have "make_api_call_loop p net a1 h1 m1 = (r, m')"
        using "1.prems"(2) True by simp
      from "1.IH" [OF True Again "1.prems"(1) this] show ?thesis .
    qed
  qed
qed

lemma make_api_call_no_response:
  assumes "\<forall>i k. failing (net i k)"
  shows "fst (make_api_call p net hkey m) = Raised
       \<or> (\<exists>k. fst (make_api_call p net hkey m) = Returned None k)"
  using loop_no_response [OF assms, of p 0 hkey m] unfolding make_api_call_def
  by (cases "make_api_call_loop p net 0 hkey m") simp

lemma synthesize_no_response:
  assumes "fst (make_api_call (rotation cfg) (service w) None m) = Raised
         \<or> (\<exists>k. fst (make_api_call (rotation cfg) (service w) None m) = Returned None k)"
  shows "fst (synthesize cfg w utterance speaker m) = None"
  using assms
  by (cases "make_api_call (rotation cfg) (service w) None m")
     (auto simp: synthesize_def split: call_result.splits option.splits)

lemma generate_sfx_no_response:
  assumes "fst (make_api_call (rotation cfg) (service w) None (api_key_manager st)) = Raised
         \<or> (\<exists>k. fst (make_api_call (rotation cfg) (service w) None (api_key_manager st))
                    = Returned None k)"
    and "sfx_cache st (effect, case duration of None \<Rightarrow> default_duration cfg | Some d \<Rightarrow> d) = None"
  shows "fst (generate_sfx cfg w effect duration st) = None
       \<and> sfx_cache (snd (generate_sfx cfg w effect duration st)) = sfx_cache st"
  using assms
  by (cases "make_api_call (rotation cfg) (service w) None (api_key_manager st)")
     (auto simp: generate_sfx_def Let_def split: call_result.splits option.splits)

lemma chunk_audio_all_failing:
  assumes "\<forall>i k. failing (service w i k)" "sfx_cache st = Map.empty"
  shows "fst (chunk_audio cfg w chunk st) = None
       \<and> sfx_cache (snd (chunk_audio cfg w chunk st)) = Map.empty"
proof (cases chunk)
  case (Dialogue speaker utterance)
  have "fst (synthesize cfg w utterance speaker (api_key_manager st)) = None"
    by (rule synthesize_no_response [OF make_api_call_no_response [OF assms(1)]])
  then show ?thesis using Dialogue assms(2)
    by (cases "synthesize cfg w utterance speaker (api_key_manager st)") (simp add: chunk_audio_def)
next
  case (Sfx effect)
  have "sfx_cache st (effect, case None of None \<Rightarrow> default_duration cfg | Some d \<Rightarrow> d) = None"
    using assms(2) by simp
  from generate_sfx_no_response [OF make_api_call_no_response [OF assms(1)] this]
  show ?thesis using Sfx assms(2) by (simp add: chunk_audio_def)
qed

lemma produced_audio_all_failing:
  assumes "\<forall>i k. failing (service w i k)" "sfx_cache st = Map.empty"
  shows "list_all (\<lambda>a. \<not> truthy w a) (produced_audio cfg w chunks st)"
  using assms(2)
proof (induction chunks arbitrary: st)
  case Nil
  then show ?case by simp
next
  case (Cons chunk chunks)
  obtain produced st1 where c: "chunk_audio cfg w chunk st = (produced, st1)"
    by (cases "chunk_audio cfg w chunk st")
  from chunk_audio_all_failing [OF assms(1) Cons.prems, of cfg chunk] c
  have "produced = None" "sfx_cache st1 = Map.empty" by simp_all
  then show ?case using c Cons.IH [of st1] by (simp add: truthy_def)
qed

lemma mix_dialogue:
  assumes "len w a \<noteq> 0"
  shows "mix_chunk cfg w (Dialogue s u) podcast (Some a)
           = seg_plus w (seg_plus w (seg_plus w podcast (silent w 300)) a) (silent w (silence_between_chunks cfg))"
  using assms by (simp add: mix_chunk_def place_audio_def)

lemma run_chunks_foldl:
  "fst (run_chunks cfg w chunks podcast st)
     = foldl (\<lambda>p (c, a). mix_chunk cfg w c p a) podcast
         (zip chunks (produced_audio cfg w chunks st))"
proof (induction chunks arbitrary: st podcast)
  case Nil
  then show ?case by simp
next
  case (Cons chunk chunks)
  obtain produced st1 where c: "chunk_audio cfg w chunk st = (produced, st1)"
    by (cases "chunk_audio cfg w chunk st")
  show ?case using c Cons.IH [of "mix_chunk cfg w chunk podcast produced" st1] by simp
qed

lemma run_chunks_skip:
  assumes "list_all (\<lambda>a. \<not> truthy w a) (produced_audio cfg w chunks st)"
  shows "fst (run_chunks cfg w chunks podcast st)
           = foldl (\<lambda>p c. seg_plus w p (silent w (silence_between_chunks cfg))) podcast chunks"
  using assms
proof (induction chunks arbitrary: st podcast)
  case Nil
  then show ?case by simp
next
  case (Cons chunk chunks)
  obtain produced st1 where c: "chunk_audio cfg w chunk st = (produced, st1)"
    by (cases "chunk_audio cfg w chunk st")
  from Cons.prems c have p: "\<not> truthy w produced"
    and r: "list_all (\<lambda>a. \<not> truthy w a) (produced_audio cfg w chunks st1)" by simp_all
  show ?case
    using c Cons.IH [OF r] mix_chunk_skip [OF p] by simp
qed

lemma measure_gaps:
  assumes "\<forall>a b. \<mu> (seg_plus w a b) = \<mu> a + \<mu> b"
  shows "\<mu> (foldl (\<lambda>p c. seg_plus w p g) podcast chunks) = \<mu> podcast + length chunks * \<mu> g"
  using assms by (induction chunks arbitrary: podcast) simp_all

lemma length_produced_audio: "length (produced_audio cfg w chunks st) = length chunks"
proof (induction chunks arbitrary: st)
  case (Cons chunk chunks)
  then show ?case by (cases "chunk_audio cfg w chunk st") simp
qed simp

lemma generate_with_chunks:
  assumes "parse content \<noteq> []"
  shows "fst (generate cfg w (Some content) st) = Finished (export_ok w)"
    and "export_ok w \<Longrightarrow> exported (snd (generate cfg w (Some content) st))
           = Some (if normalize_audio cfg then normalize_seg w (timeline cfg w content st)
                   else timeline cfg w content st)"
  using assms
  by (cases "run_chunks cfg w (parse content) (silent w (intro_silence cfg)) st";
      simp add: generate_def timeline_def Let_def)+

lemma parse_blank: "parse ([LF] @ ''   '' @ [LF, CR, LF]) = []"
  by (simp add: parse_def LF_def CR_def strip_def is_space_def flush_def Let_def)

lemma parse_only_speakers: "parse (''[SPEAKER: A]'' @ [LF] @ ''[SPEAKER: B]'' @ [LF]) = []"
  by (simp add: parse_def LF_def CR_def strip_def is_space_def match_tag_def flush_def Let_def)

lemma parse_example_script:
  "parse (''[SPEAKER: A]'' @ [LF] @ ''Hello'' @ [LF] @ ''[SFX: door]'' @ [LF] @ ''World'')
     = [Dialogue ''A'' ''Hello'', Sfx ''door'', Dialogue ''A'' ''World'']"
  by (simp add: parse_def LF_def CR_def strip_def is_space_def match_tag_def flush_def Let_def)

text \<open>
  C10. When the script parses to no chunks, \<open>generate\<close> returns \<^verbatim>\<open>False\<close> and leaves the
  state as it was: no request has been issued, nothing has been logged and nothing has
  been exported. A script of blank lines only and a script of speaker tags only both
  parse to no chunks.
\<close>

theorem generate_empty_chunk_list:
  "(parse content = [] \<longrightarrow> generate cfg w (Some content) st = (Finished False, st))
   \<and> parse ([LF] @ ''   '' @ [LF, CR, LF]) = []
   \<and> parse (''[SPEAKER: A]'' @ [LF] @ ''[SPEAKER: B]'' @ [LF]) = []"
  using parse_blank parse_only_speakers by (simp add: generate_def)

theorem generate_empty_chunk_list_witness:
  "generate DEFAULT_CONFIG
      \<lparr>service = (\<lambda>i k. Status 500 []), clock = (\<lambda>n. []), export_ok = True,
       decode = (\<lambda>body. None), silent = (\<lambda>d. replicate (nat d) (0::int)),
       seg_plus = (\<lambda>a b. a @ b), seg_times = (\<lambda>a n. concat (replicate (nat n) a)),
       len = length, slice_to = (\<lambda>a t. take (nat t) a),
       slice_from = (\<lambda>a t. drop (nat t) a),
       overlay = (\<lambda>a b. map2 (\<lambda>x y. max (- 32768) (min 32767 (x + y))) a
                            (b @ replicate (length a - length b) 0)),
       apply_gain = (\<lambda>g a. a), normalize_seg = (\<lambda>a. a)\<rparr>
      (Some ([LF] @ ''   '' @ [LF, CR, LF]))
      (new_studio \<lparr>api_keys = [''key-one''], current_index = 0, credits_log = Map.empty,
       credits_log_file = None, sent = []\<rparr>)
   = (Finished False,
      (new_studio \<lparr>api_keys = [''key-one''], current_index = 0, credits_log = Map.empty,
       credits_log_file = None, sent = []\<rparr>))"
proof -
  note t = generate_empty_chunk_list
    [of "([LF] @ ''   '' @ [LF, CR, LF])" DEFAULT_CONFIG
        "\<lparr>service = (\<lambda>i k. Status 500 []), clock = (\<lambda>n. []), export_ok = True,
       decode = (\<lambda>body. None), silent = (\<lambda>d. replicate (nat d) (0::int)),
       seg_plus = (\<lambda>a b. a @ b), seg_times = (\<lambda>a n. concat (replicate (nat n) a)),
       len = length, slice_to = (\<lambda>a t. take (nat t) a),
       slice_from = (\<lambda>a t. drop (nat t) a),
       overlay = (\<lambda>a b. map2 (\<lambda>x y. max (- 32768) (min 32767 (x + y))) a
                            (b @ replicate (length a - length b) 0)),
       apply_gain = (\<lambda>g a. a), normalize_seg = (\<lambda>a. a)\<rparr>"
        "(new_studio \<lparr>api_keys = [''key-one''], current_index = 0, credits_log = Map.empty,
       credits_log_file = None, sent = []\<rparr>)"]
  from t have e: "parse ([LF] @ ''   '' @ [LF, CR, LF]) = []" by blast
  from t e show ?thesis by blast
qed

text \<open>
  C6. Text that is empty or white space gives no audio and issues no request; an effect
  that is neither cached nor has a prompt gives no audio; a call that comes back without
  a response gives no audio, for speech and for effects. A chunk without audio leaves
  the loop running: the next chunks are processed from the podcast extended by the
  silence after the chunk. For a script with chunks, \<open>generate\<close> obtains audio for every
  chunk, reaches the export and returns whether the export succeeded, whatever the
  provider answered; when the export succeeds the exported audio is the timeline,
  normalized if configured.
\<close>

theorem failed_chunks_are_skipped:
  "(strip utterance = [] \<longrightarrow> synthesize cfg w utterance speaker m = (None, m))
   \<and> (sfx_cache st (effect, default_duration cfg) = None
        \<and> sfx_prompts cfg (lower effect) = None \<longrightarrow>
      generate_sfx cfg w effect None st = (None, st))
   \<and> (fst (make_api_call (rotation cfg) (service w) None m) = Returned None k \<longrightarrow>
      fst (synthesize cfg w utterance speaker m) = None)
   \<and> (fst (make_api_call (rotation cfg) (service w) None (api_key_manager st)) = Returned None k
        \<and> sfx_cache st (effect, default_duration cfg) = None \<longrightarrow>
      fst (generate_sfx cfg w effect None st) = None)
   \<and> (\<not> truthy w (fst (chunk_audio cfg w chunk st)) \<longrightarrow>
      run_chunks cfg w (chunk # chunks) podcast st
        = run_chunks cfg w chunks (seg_plus w podcast (silent w (silence_between_chunks cfg)))
            (snd (chunk_audio cfg w chunk st)))
   \<and> (parse content \<noteq> [] \<longrightarrow>
      fst (generate cfg w (Some content) st) = Finished (export_ok w)
      \<and> length (produced_audio cfg w (parse content) st) = length (parse content)
      \<and> (export_ok w \<longrightarrow> exported (snd (generate cfg w (Some content) st))
            = Some (if normalize_audio cfg then normalize_seg w (timeline cfg w content st)
                    else timeline cfg w content st)))"
proof (intro conjI impI)
  assume "strip utterance = []"
  then show "synthesize cfg w utterance speaker m = (None, m)"
    by (simp add: synthesize_def)
next
  assume "sfx_cache st (effect, default_duration cfg) = None
        \<and> sfx_prompts cfg (lower effect) = None"
  then show "generate_sfx cfg w effect None st = (None, st)"
    by (simp add: generate_sfx_def)
next
  assume "fst (make_api_call (rotation cfg) (service w) None m) = Returned None k"
  then have "fst (make_api_call (rotation cfg) (service w) None m) = Raised
         \<or> (\<exists>k. fst (make_api_call (rotation cfg) (service w) None m) = Returned None k)"
    by blast
  then show "fst (synthesize cfg w utterance speaker m) = None"
    by (rule synthesize_no_response)
next
  assume a: "fst (make_api_call (rotation cfg) (service w) None (api_key_manager st)) = Returned None k
        \<and> sfx_cache st (effect, default_duration cfg) = None"
  then have "fst (make_api_call (rotation cfg) (service w) None (api_key_manager st)) = Raised
         \<or> (\<exists>k. fst (make_api_call (rotation cfg) (service w) None (api_key_manager st))
                    = Returned None k)"
    by blast
  moreover have "sfx_cache st (effect, case None of None \<Rightarrow> default_duration cfg | Some d \<Rightarrow> d) = None"
    using a by simp
  ultimately show "fst (generate_sfx cfg w effect None st) = None"
    using generate_sfx_no_response by blast
next
  assume "\<not> truthy w (fst (chunk_audio cfg w chunk st))"
  then show "run_chunks cfg w (chunk # chunks) podcast st
        = run_chunks cfg w chunks (seg_plus w podcast (silent w (silence_between_chunks cfg)))
            (snd (chunk_audio cfg w chunk st))"
    using mix_chunk_skip [of w "fst (chunk_audio cfg w chunk st)" cfg chunk podcast]
    by (cases "chunk_audio cfg w chunk st") simp
next
  assume p: "parse content \<noteq> []"
  show "fst (generate cfg w (Some content) st) = Finished (export_ok w)"
    by (rule generate_with_chunks(1) [OF p])
  show "length (produced_audio cfg w (parse content) st) = length (parse content)"
    by (rule length_produced_audio)
  assume "export_ok w"
  then show "exported (snd (generate cfg w (Some content) st))
            = Some (if normalize_audio cfg then normalize_seg w (timeline cfg w content st)
                    else timeline cfg w content st)"
    by (rule generate_with_chunks(2) [OF p])
qed

theorem failed_chunks_are_skipped_witness:
  "fst (generate DEFAULT_CONFIG
      \<lparr>service = (\<lambda>i k. Status 500 []), clock = (\<lambda>n. []), export_ok = True,
       decode = (\<lambda>body. None), silent = (\<lambda>d. replicate (nat d) (0::int)),
       seg_plus = (\<lambda>a b. a @ b), seg_times = (\<lambda>a n. concat (replicate (nat n) a)),
       len = length, slice_to = (\<lambda>a t. take (nat t) a),
       slice_from = (\<lambda>a t. drop (nat t) a),
       overlay = (\<lambda>a b. map2 (\<lambda>x y. max (- 32768) (min 32767 (x + y))) a
                            (b @ replicate (length a - length b) 0)),
       apply_gain = (\<lambda>g a. a), normalize_seg = (\<lambda>a. a)\<rparr>
      (Some (''[SPEAKER: A]'' @ [LF] @ ''Hello'' @ [LF] @ ''[SFX: door]'' @ [LF] @ ''World''))
      (new_studio \<lparr>api_keys = [''key-one''], current_index = 0, credits_log = Map.empty,
       credits_log_file = None, sent = []\<rparr>)) = Finished True
   \<and> synthesize DEFAULT_CONFIG
      \<lparr>service = (\<lambda>i k. Status 500 []), clock = (\<lambda>n. []), export_ok = True,
       decode = (\<lambda>body. None), silent = (\<lambda>d. replicate (nat d) (0::int)),
       seg_plus = (\<lambda>a b. a @ b), seg_times = (\<lambda>a n. concat (replicate (nat n) a)),
       len = length, slice_to = (\<lambda>a t. take (nat t) a),
       slice_from = (\<lambda>a t. drop (nat t) a),
       overlay = (\<lambda>a b. map2 (\<lambda>x y. max (- 32768) (min 32767 (x + y))) a
                            (b @ replicate (length a - length b) 0)),
       apply_gain = (\<lambda>g a. a), normalize_seg = (\<lambda>a. a)\<rparr>
      ''   '' ''A''
      \<lparr>api_keys = [''key-one''], current_index = 0, credits_log = Map.empty,
       credits_log_file = None, sent = []\<rparr>
     = (None, \<lparr>api_keys = [''key-one''], current_index = 0, credits_log = Map.empty,
       credits_log_file = None, sent = []\<rparr>)
   \<and> generate_sfx DEFAULT_CONFIG
      \<lparr>service = (\<lambda>i k. Status 500 []), clock = (\<lambda>n. []), export_ok = True,
       decode = (\<lambda>body. None), silent = (\<lambda>d. replicate (nat d) (0::int)),
       seg_plus = (\<lambda>a b. a @ b), seg_times = (\<lambda>a n. concat (replicate (nat n) a)),
       len = length, slice_to = (\<lambda>a t. take (nat t) a),
       slice_from = (\<lambda>a t. drop (nat t) a),
       overlay = (\<lambda>a b. map2 (\<lambda>x y. max (- 32768) (min 32767 (x + y))) a
                            (b @ replicate (length a - length b) 0)),
       apply_gain = (\<lambda>g a. a), normalize_seg = (\<lambda>a. a)\<rparr>
      ''nope'' None
      (new_studio \<lparr>api_keys = [''key-one''], current_index = 0, credits_log = Map.empty,
       credits_log_file = None, sent = []\<rparr>)
     = (None, (new_studio \<lparr>api_keys = [''key-one''], current_index = 0, credits_log = Map.empty,
       credits_log_file = None, sent = []\<rparr>))
   \<and> fst (synthesize DEFAULT_CONFIG
      \<lparr>service = (\<lambda>i k. Status 500 []), clock = (\<lambda>n. []), export_ok = True,
       decode = (\<lambda>body. None), silent = (\<lambda>d. replicate (nat d) (0::int)),
       seg_plus = (\<lambda>a b. a @ b), seg_times = (\<lambda>a n. concat (replicate (nat n) a)),
       len = length, slice_to = (\<lambda>a t. take (nat t) a),
       slice_from = (\<lambda>a t. drop (nat t) a),
       overlay = (\<lambda>a b. map2 (\<lambda>x y. max (- 32768) (min 32767 (x + y))) a
                            (b @ replicate (length a - length b) 0)),
       apply_gain = (\<lambda>g a. a), normalize_seg = (\<lambda>a. a)\<rparr>
      ''Hello'' ''A''
      \<lparr>api_keys = [''key-one''], current_index = 0, credits_log = Map.empty,
       credits_log_file = None, sent = []\<rparr>) = None"
proof -
  let ?w = "\<lparr>service = (\<lambda>i k. Status 500 []), clock = (\<lambda>n. []), export_ok = True,
       decode = (\<lambda>body. None), silent = (\<lambda>d. replicate (nat d) (0::int)),
       seg_plus = (\<lambda>a b. a @ b), seg_times = (\<lambda>a n. concat (replicate (nat n) a)),
       len = length, slice_to = (\<lambda>a t. take (nat t) a),
       slice_from = (\<lambda>a t. drop (nat t) a),
       overlay = (\<lambda>a b. map2 (\<lambda>x y. max (- 32768) (min 32767 (x + y))) a
                            (b @ replicate (length a - length b) 0)),
       apply_gain = (\<lambda>g a. a), normalize_seg = (\<lambda>a. a)\<rparr>"
  let ?m = "\<lparr>api_keys = [''key-one''], current_index = 0, credits_log = Map.empty,
       credits_log_file = None, sent = []\<rparr>"
  let ?st = "new_studio ?m :: int list studio"
  have p: "parse (''[SPEAKER: A]'' @ [LF] @ ''Hello'' @ [LF] @ ''[SFX: door]'' @ [LF] @ ''World'') \<noteq> []"
    unfolding parse_example_script by simp
  have s: "strip ''   '' = []" by (simp add: strip_def is_space_def)
  have u: "sfx_cache ?st (''nope'', default_duration DEFAULT_CONFIG) = None
        \<and> sfx_prompts DEFAULT_CONFIG (lower ''nope'') = None"
    by (simp add: new_studio_def DEFAULT_CONFIG_def lower_def lower_char_def)
  have "\<exists>hkey' m'. make_api_call_loop (rotation DEFAULT_CONFIG) (service ?w) 0 None ?m
          = (Returned None hkey', m')
        \<and> length (sent m') = length (sent ?m) + nat (max_retries (rotation DEFAULT_CONFIG) - 0)"
    by (rule loop_all_failing) (simp_all add: DEFAULT_CONFIG_def failing_def)
  then obtain k where
    x: "fst (make_api_call (rotation DEFAULT_CONFIG) (service ?w) None ?m) = Returned None k"
    by (auto simp: make_api_call_def)
  from failed_chunks_are_skipped
    [of "''   ''" DEFAULT_CONFIG ?w "''A''" ?m ?st "''nope''" k _ _ _ "(''[SPEAKER: A]'' @ [LF] @ ''Hello'' @ [LF] @ ''[SFX: door]'' @ [LF] @ ''World'')"] s u p
  have "synthesize DEFAULT_CONFIG ?w ''   '' ''A'' ?m = (None, ?m)"
    and "generate_sfx DEFAULT_CONFIG ?w ''nope'' None ?st = (None, ?st)"
    and "fst (generate DEFAULT_CONFIG ?w (Some (''[SPEAKER: A]'' @ [LF] @ ''Hello'' @ [LF] @ ''[SFX: door]'' @ [LF] @ ''World'')) ?st) = Finished (export_ok ?w)"
    by blast+
  moreover
  from failed_chunks_are_skipped [of "''Hello''" DEFAULT_CONFIG ?w "''A''" ?m ?st "''nope''" k] x
  have "fst (synthesize DEFAULT_CONFIG ?w ''Hello'' ''A'' ?m) = None"
    by blast
  ultimately show ?thesis by simp
qed

text \<open>
  C9. Every pass of the loop body ends by appending the silence between chunks to the
  podcast, whatever audio the chunk produced: the podcast after the chunk is what
  \<open>place_audio\<close> made of it, then that silence. For speech that was produced it is the
  podcast, 300 ms of silence, the speech, then the silence between chunks; for a chunk
  whose audio is \<^verbatim>\<open>None\<close> or empty it is the podcast, then the silence between chunks.
  So the timeline is the intro silence taken through one such step per chunk, in order;
  when no chunk produced audio it is the intro silence followed by one silence per
  chunk. That is the case when every request fails and the effects cache starts empty.
  The silences are the segments \<^verbatim>\<open>AudioSegment.silent\<close> returns and \<^verbatim>\<open>+\<close> joins. In any
  measure \<open>\<mu>\<close> of segments that \<^verbatim>\<open>+\<close> adds up, every chunk adds exactly the measure of the
  silence between chunks to what \<open>place_audio\<close> left, and a run without audio measures
  the intro silence plus the number of chunks times the silence between chunks.
\<close>

theorem silence_after_every_chunk:
  "mix_chunk cfg w chunk podcast produced
     = seg_plus w (place_audio cfg w chunk podcast produced) (silent w (silence_between_chunks cfg))
   \<and> (len w a \<noteq> 0 \<longrightarrow>
      mix_chunk cfg w (Dialogue s u) podcast (Some a)
        = seg_plus w (seg_plus w (seg_plus w podcast (silent w 300)) a) (silent w (silence_between_chunks cfg)))
   \<and> (\<not> truthy w produced \<longrightarrow>
      mix_chunk cfg w chunk podcast produced = seg_plus w podcast (silent w (silence_between_chunks cfg)))
   \<and> timeline cfg w content st
       = foldl (\<lambda>p (c, a). seg_plus w (place_audio cfg w c p a) (silent w (silence_between_chunks cfg)))
           (silent w (intro_silence cfg))
           (zip (parse content) (produced_audio cfg w (parse content) st))
   \<and> length (produced_audio cfg w (parse content) st) = length (parse content)
   \<and> (list_all (\<lambda>a. \<not> truthy w a) (produced_audio cfg w (parse content) st) \<longrightarrow>
      timeline cfg w content st
        = foldl (\<lambda>p c. seg_plus w p (silent w (silence_between_chunks cfg))) (silent w (intro_silence cfg)) (parse content))
   \<and> ((\<forall>i k. failing (service w i k)) \<and> sfx_cache st = Map.empty \<longrightarrow>
      list_all (\<lambda>a. \<not> truthy w a) (produced_audio cfg w (parse content) st))
   \<and> ((\<forall>a b. \<mu> (seg_plus w a b) = \<mu> a + \<mu> b) \<longrightarrow>
      \<mu> (mix_chunk cfg w chunk podcast produced)
        = \<mu> (place_audio cfg w chunk podcast produced) + \<mu> (silent w (silence_between_chunks cfg))
      \<and> (list_all (\<lambda>a. \<not> truthy w a) (produced_audio cfg w (parse content) st) \<longrightarrow>
         \<mu> (timeline cfg w content st)
           = \<mu> (silent w (intro_silence cfg)) + length (parse content) * \<mu> (silent w (silence_between_chunks cfg))))"
proof (intro conjI impI)
  show "mix_chunk cfg w chunk podcast produced
     = seg_plus w (place_audio cfg w chunk podcast produced) (silent w (silence_between_chunks cfg))"
    by (simp add: mix_chunk_def)
next
  assume "len w a \<noteq> 0"
  then show "mix_chunk cfg w (Dialogue s u) podcast (Some a)
        = seg_plus w (seg_plus w (seg_plus w podcast (silent w 300)) a) (silent w (silence_between_chunks cfg))"
    by (rule mix_dialogue)
next
  assume "\<not> truthy w produced"
  then show "mix_chunk cfg w chunk podcast produced = seg_plus w podcast (silent w (silence_between_chunks cfg))"
    by (rule mix_chunk_skip)
next
  have "(\<lambda>p (c, a). mix_chunk cfg w c p a)
          = (\<lambda>p (c, a). seg_plus w (place_audio cfg w c p a) (silent w (silence_between_chunks cfg)))"
    by (simp add: mix_chunk_def fun_eq_iff)
  then show "timeline cfg w content st
       = foldl (\<lambda>p (c, a). seg_plus w (place_audio cfg w c p a) (silent w (silence_between_chunks cfg)))
           (silent w (intro_silence cfg))
           (zip (parse content) (produced_audio cfg w (parse content) st))"
    unfolding timeline_def run_chunks_foldl by simp
next
  show "length (produced_audio cfg w (parse content) st) = length (parse content)"
    by (rule length_produced_audio)
next
  assume "list_all (\<lambda>a. \<not> truthy w a) (produced_audio cfg w (parse content) st)"
  then show "timeline cfg w content st
        = foldl (\<lambda>p c. seg_plus w p (silent w (silence_between_chunks cfg))) (silent w (intro_silence cfg)) (parse content)"
    unfolding timeline_def by (rule run_chunks_skip)
next
  assume "(\<forall>i k. failing (service w i k)) \<and> sfx_cache st = Map.empty"
  then show "list_all (\<lambda>a. \<not> truthy w a) (produced_audio cfg w (parse content) st)"
    using produced_audio_all_failing by blast
next
  assume "\<forall>a b. \<mu> (seg_plus w a b) = \<mu> a + \<mu> b"
  then show "\<mu> (mix_chunk cfg w chunk podcast produced)
        = \<mu> (place_audio cfg w chunk podcast produced) + \<mu> (silent w (silence_between_chunks cfg))"
    by (simp add: mix_chunk_def)
next
  assume m: "\<forall>a b. \<mu> (seg_plus w a b) = \<mu> a + \<mu> b"
    and "list_all (\<lambda>a. \<not> truthy w a) (produced_audio cfg w (parse content) st)"
  then have "timeline cfg w content st
        = foldl (\<lambda>p c. seg_plus w p (silent w (silence_between_chunks cfg))) (silent w (intro_silence cfg)) (parse content)"
    unfolding timeline_def by (simp add: run_chunks_skip)
  then show "\<mu> (timeline cfg w content st)
           = \<mu> (silent w (intro_silence cfg)) + length (parse content) * \<mu> (silent w (silence_between_chunks cfg))"
    using measure_gaps [OF m] by simp
qed

theorem silence_after_every_chunk_witness:
  "timeline DEFAULT_CONFIG
      \<lparr>service = (\<lambda>i k. Status 500 []), clock = (\<lambda>n. []), export_ok = True,
       decode = (\<lambda>body. None), silent = (\<lambda>d. replicate (nat d) (0::int)),
       seg_plus = (\<lambda>a b. a @ b), seg_times = (\<lambda>a n. concat (replicate (nat n) a)),
       len = length, slice_to = (\<lambda>a t. take (nat t) a),
       slice_from = (\<lambda>a t. drop (nat t) a),
       overlay = (\<lambda>a b. map2 (\<lambda>x y. max (- 32768) (min 32767 (x + y))) a
                            (b @ replicate (length a - length b) 0)),
       apply_gain = (\<lambda>g a. a), normalize_seg = (\<lambda>a. a)\<rparr>
      (''[SPEAKER: A]'' @ [LF] @ ''Hello'' @ [LF] @ ''[SFX: door]'' @ [LF] @ ''World'')
      (new_studio \<lparr>api_keys = [''key-one''], current_index = 0, credits_log = Map.empty,
       credits_log_file = None, sent = []\<rparr>)
     = replicate 500 0 @ replicate 200 0 @ replicate 200 0 @ replicate 200 0
   \<and> mix_chunk DEFAULT_CONFIG
      \<lparr>service = (\<lambda>i k. Status 500 []), clock = (\<lambda>n. []), export_ok = True,
       decode = (\<lambda>body. None), silent = (\<lambda>d. replicate (nat d) (0::int)),
       seg_plus = (\<lambda>a b. a @ b), seg_times = (\<lambda>a n. concat (replicate (nat n) a)),
       len = length, slice_to = (\<lambda>a t. take (nat t) a),
       slice_from = (\<lambda>a t. drop (nat t) a),
       overlay = (\<lambda>a b. map2 (\<lambda>x y. max (- 32768) (min 32767 (x + y))) a
                            (b @ replicate (length a - length b) 0)),
       apply_gain = (\<lambda>g a. a), normalize_seg = (\<lambda>a. a)\<rparr>
      (Dialogue ''A'' ''Hello'') [1] (Some [3, 4])
     = [1] @ replicate 300 0 @ [3, 4] @ replicate 200 0
   \<and> mix_chunk DEFAULT_CONFIG
      \<lparr>service = (\<lambda>i k. Status 500 []), clock = (\<lambda>n. []), export_ok = True,
       decode = (\<lambda>body. None), silent = (\<lambda>d. replicate (nat d) (0::int)),
       seg_plus = (\<lambda>a b. a @ b), seg_times = (\<lambda>a n. concat (replicate (nat n) a)),
       len = length, slice_to = (\<lambda>a t. take (nat t) a),
       slice_from = (\<lambda>a t. drop (nat t) a),
       overlay = (\<lambda>a b. map2 (\<lambda>x y. max (- 32768) (min 32767 (x + y))) a
                            (b @ replicate (length a - length b) 0)),
       apply_gain = (\<lambda>g a. a), normalize_seg = (\<lambda>a. a)\<rparr>
      (Dialogue ''A'' ''Hello'') [1] None
     = [1] @ replicate 200 0
   \<and> length (timeline DEFAULT_CONFIG
      \<lparr>service = (\<lambda>i k. Status 500 []), clock = (\<lambda>n. []), export_ok = True,
       decode = (\<lambda>body. None), silent = (\<lambda>d. replicate (nat d) (0::int)),
       seg_plus = (\<lambda>a b. a @ b), seg_times = (\<lambda>a n. concat (replicate (nat n) a)),
       len = length, slice_to = (\<lambda>a t. take (nat t) a),
       slice_from = (\<lambda>a t. drop (nat t) a),
       overlay = (\<lambda>a b. map2 (\<lambda>x y. max (- 32768) (min 32767 (x + y))) a
                            (b @ replicate (length a - length b) 0)),
       apply_gain = (\<lambda>g a. a), normalize_seg = (\<lambda>a. a)\<rparr>
      (''[SPEAKER: A]'' @ [LF] @ ''Hello'' @ [LF] @ ''[SFX: door]'' @ [LF] @ ''World'')
      (new_studio \<lparr>api_keys = [''key-one''], current_index = 0, credits_log = Map.empty,
       credits_log_file = None, sent = []\<rparr>)) = 500 + 3 * 200"
proof -
  let ?w = "\<lparr>service = (\<lambda>i k. Status 500 []), clock = (\<lambda>n. []), export_ok = True,
       decode = (\<lambda>body. None), silent = (\<lambda>d. replicate (nat d) (0::int)),
       seg_plus = (\<lambda>a b. a @ b), seg_times = (\<lambda>a n. concat (replicate (nat n) a)),
       len = length, slice_to = (\<lambda>a t. take (nat t) a),
       slice_from = (\<lambda>a t. drop (nat t) a),
       overlay = (\<lambda>a b. map2 (\<lambda>x y. max (- 32768) (min 32767 (x + y))) a
                            (b @ replicate (length a - length b) 0)),
       apply_gain = (\<lambda>g a. a), normalize_seg = (\<lambda>a. a)\<rparr>"
  let ?st = "(new_studio \<lparr>api_keys = [''key-one''], current_index = 0, credits_log = Map.empty,
       credits_log_file = None, sent = []\<rparr>) :: int list studio"
  let ?script = "(''[SPEAKER: A]'' @ [LF] @ ''Hello'' @ [LF] @ ''[SFX: door]'' @ [LF] @ ''World'')"
  have c: "silence_between_chunks DEFAULT_CONFIG = 200" "intro_silence DEFAULT_CONFIG = 500"
    by (simp_all add: DEFAULT_CONFIG_def)
  note t = silence_after_every_chunk [of DEFAULT_CONFIG ?w _ "[1]" _ _ _ _ ?script ?st length]
  have f: "(\<forall>i k. failing (service ?w i k)) \<and> sfx_cache ?st = Map.empty"
    by (simp add: failing_def new_studio_def)
  from t f have q: "list_all (\<lambda>a. \<not> truthy ?w a)
      (produced_audio DEFAULT_CONFIG ?w (parse ?script) ?st)"
    by blast
  have ad: "\<forall>a b. length (seg_plus ?w a b) = length a + length b" by simp
  from t ad q have "length (timeline DEFAULT_CONFIG ?w ?script ?st)
      = length (silent ?w (intro_silence DEFAULT_CONFIG))
        + length (parse ?script) * length (silent ?w (silence_between_chunks DEFAULT_CONFIG))"
    by blast
  then have 4: "length (timeline DEFAULT_CONFIG ?w ?script ?st) = 500 + 3 * 200"
    unfolding parse_example_script c by simp
  from t q have "timeline DEFAULT_CONFIG ?w ?script ?st
      = foldl (\<lambda>p c. seg_plus ?w p (silent ?w (silence_between_chunks DEFAULT_CONFIG)))
          (silent ?w (intro_silence DEFAULT_CONFIG)) (parse ?script)"
    by blast
  then have 1: "timeline DEFAULT_CONFIG ?w ?script ?st
     = replicate 500 0 @ replicate 200 0 @ replicate 200 0 @ replicate 200 0"
    unfolding parse_example_script c by simp
  have l: "len ?w [3, 4] \<noteq> 0" by simp
  from silence_after_every_chunk
         [of DEFAULT_CONFIG ?w _ "[1]" _ "[3, 4]" "''A''" "''Hello''" ?script ?st] l
  have "mix_chunk DEFAULT_CONFIG ?w (Dialogue ''A'' ''Hello'') [1] (Some [3, 4])
        = seg_plus ?w (seg_plus ?w (seg_plus ?w [1] (silent ?w 300)) [3, 4])
            (silent ?w (silence_between_chunks DEFAULT_CONFIG))"
    by blast
  then have 2: "mix_chunk DEFAULT_CONFIG ?w (Dialogue ''A'' ''Hello'') [1] (Some [3, 4])
     = [1] @ replicate 300 0 @ [3, 4] @ replicate 200 0"
    unfolding c by simp
  have n: "\<not> truthy ?w None" by (simp add: truthy_def)
  from silence_after_every_chunk
         [of DEFAULT_CONFIG ?w "Dialogue ''A'' ''Hello''" "[1]" None _ _ _ ?script ?st] n
  have "mix_chunk DEFAULT_CONFIG ?w (Dialogue ''A'' ''Hello'') [1] None
        = seg_plus ?w [1] (silent ?w (silence_between_chunks DEFAULT_CONFIG))"
    by blast
  then have 3: "mix_chunk DEFAULT_CONFIG ?w (Dialogue ''A'' ''Hello'') [1] None
     = [1] @ replicate 200 0"
    unfolding c by simp
  from 1 2 3 4 show ?thesis by blast
qed

end
